theory Spec2Isabelle
  imports Main "HOL-Library.Word"
begin

section \<open>EasyAsync: task lifecycle and callback delivery\<close>

text \<open>
  A shallow embedding of \<^verbatim>\<open>lib/EasyAsync/src/EasyAsync.h\<close>. Every C++ function is a
  HOL function of the same name over explicit state. What the code takes from its
  environment is a parameter of the function that reads it:
  \<^item> \<open>now\<close> is the value \<^verbatim>\<open>millis()\<close> returns at the call (an \<^verbatim>\<open>unsigned long\<close> of 32 bits);
  \<^item> \<open>tskNO_AFFINITY\<close> is the FreeRTOS constant of that name, which the header does not define;
  \<^item> \<open>launcher\<close> is the answer of \<^verbatim>\<open>xTaskCreate\<close>/\<^verbatim>\<open>xTaskCreatePinnedToCore\<close>:
    \<open>None\<close> when the result is not \<^verbatim>\<open>pdPASS\<close>, \<open>Some k\<close> with the created handle otherwise;
  \<^item> \<open>busy\<close> says whether another thread holds the queue's mutex when a non-blocking take is tried;
  \<^item> \<open>arrivals\<close> lists, per iteration of a drain, the thunks other code appends while the
    mutex is released around the call of a thunk;
  \<^item> \<open>during\<close> lists what other threads do to the shared \<^verbatim>\<open>TaskHandle\<close> while the work
    callable runs.
  User callables are represented by what the core observes of them: a work callable by
  the way its call ends, a completion callable by an identifier; each call is recorded in
  the \<open>trace\<close> of the world. Completion callables are taken to return normally, and a wrapper
  body is described from its start to its end (a work callable that never returns, or
  whose context is deleted under it, has no end to describe).
\<close>

subsection \<open>Configuration and lifecycle state\<close>

type_synonym uint32_t = "32 word"
type_synonym uint16_t = "16 word"
type_synonym UBaseType_t = "32 word"
type_synonym BaseType_t = "32 word"  \<comment> \<open>a signed int of 32 bits; only compared for equality\<close>
type_synonym TaskHandle_t = "nat option"  \<comment> \<open>a pointer to an execution context; \<open>None\<close> is \<^verbatim>\<open>nullptr\<close>\<close>

record AsyncConfig =
  defaultStackSize :: uint32_t
  defaultPriority :: UBaseType_t
  defaultCore :: BaseType_t
  maxConcurrentTasks :: uint16_t
  executeCallbacksInLoop :: bool

definition AsyncConfig_init :: "BaseType_t \<Rightarrow> AsyncConfig" where
  "AsyncConfig_init tskNO_AFFINITY =
     \<lparr>defaultStackSize = 4096, defaultPriority = 1, defaultCore = tskNO_AFFINITY,
      maxConcurrentTasks = 10, executeCallbacksInLoop = True\<rparr>"

datatype TaskState = Pending | Running | Completed | Failed | Cancelled

text \<open>
  The values of the \<^verbatim>\<open>const char*\<close> in \<^verbatim>\<open>TaskConfig::name\<close>: \<^verbatim>\<open>nullptr\<close>; a string of the
  caller's that outlives the task; the local buffer \<^verbatim>\<open>taskName\<close> of a call of \<^verbatim>\<open>run()\<close> that
  is still executing, with the text \<^verbatim>\<open>snprintf\<close> wrote into it; and that same pointer once the
  call has returned, when the buffer is gone and what it reads as is not defined.
\<close>

datatype name_ptr = NullName | Literal string | TaskNameBuffer string | DeadBuffer

record TaskConfig =
  stackSize :: uint32_t
  priority :: UBaseType_t
  core :: BaseType_t
  name :: name_ptr
  timeoutMs :: uint32_t
  executeInLoop :: bool

definition TaskConfig_init :: "BaseType_t \<Rightarrow> TaskConfig" where
  "TaskConfig_init tskNO_AFFINITY =
     \<lparr>stackSize = 0, priority = 0, core = tskNO_AFFINITY, name = NullName,
      timeoutMs = 0, executeInLoop = True\<rparr>"

subsection \<open>CallbackQueue\<close>

text \<open>
  \<^verbatim>\<open>xSemaphoreTake(mutex, portMAX_DELAY)\<close> blocks until the mutex is free and then returns
  \<^verbatim>\<open>pdTRUE\<close>; \<^verbatim>\<open>xSemaphoreTake(mutex, 0)\<close> returns \<^verbatim>\<open>pdTRUE\<close> only when the mutex is free
  at the call.
\<close>

datatype ticks = NoWait | portMAX_DELAY

definition xSemaphoreTake :: "bool \<Rightarrow> ticks \<Rightarrow> bool" where
  "xSemaphoreTake busy t = (case t of NoWait \<Rightarrow> \<not> busy | portMAX_DELAY \<Rightarrow> True)"

definition enqueue :: "'c \<Rightarrow> 'c list \<Rightarrow> 'c list" where
  "enqueue callback queue =
     (if xSemaphoreTake False portMAX_DELAY then queue @ [callback] else queue)"

fun arrived :: "'c list list \<Rightarrow> 'c list" where
  "arrived [] = []"
| "arrived (new # later) = new"

text \<open>
  The loop of \<^verbatim>\<open>process()\<close>, entered with the mutex held. It returns the queue it leaves
  and the thunks it called, in the order of the calls.
\<close>

function process_loop :: "'c list \<Rightarrow> 'c list list \<Rightarrow> 'c list \<Rightarrow> 'c list \<times> 'c list" where
  "process_loop [] arrivals executed = ([], executed)"
| "process_loop (callback # rest) arrivals executed =
     (if \<not> xSemaphoreTake False portMAX_DELAY
      then (rest @ arrived arrivals, executed @ [callback])
      else process_loop (rest @ arrived arrivals) (tl arrivals) (executed @ [callback]))"
  by pat_completeness auto
termination
proof (relation "measure (\<lambda>(queue, arrivals, executed). length queue + length (concat arrivals))")
  show "wf (measure (\<lambda>(queue :: 'c list, arrivals :: 'c list list, executed :: 'c list).
            length queue + length (concat arrivals)))"
    by simp
next
  fix callback :: 'c and rest arrivals executed
  show "((rest @ arrived arrivals, tl arrivals, executed @ [callback]),
         (callback # rest, arrivals, executed))
        \<in> measure (\<lambda>(queue, arrivals, executed). length queue + length (concat arrivals))"
    by (cases arrivals) simp_all
qed

definition process :: "bool \<Rightarrow> 'c list list \<Rightarrow> 'c list \<Rightarrow> 'c list \<times> 'c list" where
  "process busy arrivals queue =
     (if xSemaphoreTake busy NoWait then process_loop queue arrivals [] else (queue, []))"

definition size_queue :: "'c list \<Rightarrow> nat" where
  "size_queue queue = (if xSemaphoreTake False portMAX_DELAY then length queue else 0)"

subsection \<open>TaskHandle\<close>

record TaskHandle =
  taskHandle :: TaskHandle_t
  state :: TaskState
  cancelled :: bool
  startTime :: uint32_t
  endTime :: uint32_t

definition TaskHandle_init :: TaskHandle where
  "TaskHandle_init =
     \<lparr>taskHandle = None, state = Pending, cancelled = False, startTime = 0, endTime = 0\<rparr>"

definition setHandle :: "uint32_t \<Rightarrow> TaskHandle_t \<Rightarrow> TaskHandle \<Rightarrow> TaskHandle" where
  "setHandle now h th = th\<lparr>taskHandle := h, state := Running, startTime := now\<rparr>"

definition getHandle :: "TaskHandle \<Rightarrow> TaskHandle_t" where
  "getHandle th = taskHandle th"

definition getState :: "TaskHandle \<Rightarrow> TaskState" where
  "getState th = state th"

definition setState :: "uint32_t \<Rightarrow> TaskState \<Rightarrow> TaskHandle \<Rightarrow> TaskHandle" where
  "setState now newState th =
     (if newState = Completed \<or> newState = Failed \<or> newState = Cancelled
      then th\<lparr>state := newState, endTime := now\<rparr>
      else th\<lparr>state := newState\<rparr>)"

definition isCancelled :: "TaskHandle \<Rightarrow> bool" where
  "isCancelled th = cancelled th"

text \<open>
  \<^verbatim>\<open>cancel()\<close> returns the object as it leaves it, and the context it handed to
  \<^verbatim>\<open>vTaskDelete\<close> (\<open>None\<close> when it deleted nothing).
\<close>

definition cancel :: "uint32_t \<Rightarrow> TaskHandle \<Rightarrow> TaskHandle \<times> TaskHandle_t" where
  "cancel now th =
     (let th1 = th\<lparr>cancelled := True\<rparr> in
      if taskHandle th1 \<noteq> None \<and> state th1 = Running
      then ((setState now Cancelled th1)\<lparr>taskHandle := None\<rparr>, taskHandle th1)
      else (th1, None))"

definition isRunning :: "TaskHandle \<Rightarrow> bool" where
  "isRunning th = (state th = Running \<and> \<not> cancelled th)"

definition getExecutionTime :: "uint32_t \<Rightarrow> TaskHandle \<Rightarrow> uint32_t" where
  "getExecutionTime now th =
     (if startTime th = 0 then 0
      else if endTime th = 0 then now - startTime th
      else endTime th - startTime th)"

subsection \<open>The world a task runs in\<close>

text \<open>
  A work callable is what its call does: it returns (a value, for a result-producing
  callable) or raises. The overload of \<^verbatim>\<open>executeTask\<close> is chosen by the return type, here
  by the constructor of \<open>func\<close>.
\<close>

datatype 'r call_result = Returned 'r | Raised

datatype 'r func = VoidFunc "unit call_result" | ResultFunc "'r call_result"

text \<open>The two \<^verbatim>\<open>callbackWrapper\<close> closures: \<^verbatim>\<open>[callback]\<close> and \<^verbatim>\<open>[callback, result]\<close>.\<close>

datatype ('cb, 'r) thunk = VoidCallbackWrapper 'cb | ResultCallbackWrapper 'cb 'r

text \<open>
  The calls of user callables: the work callable of the task whose \<^verbatim>\<open>TaskHandle\<close> is at an
  address, and a completion callable with its argument.
\<close>

datatype ('cb, 'r) event = FuncCalled nat | VoidCallbackCalled 'cb | CallbackCalled 'cb 'r

fun call_thunk :: "('cb, 'r) thunk \<Rightarrow> ('cb, 'r) event" where
  "call_thunk (VoidCallbackWrapper callback) = VoidCallbackCalled callback"
| "call_thunk (ResultCallbackWrapper callback result) = CallbackCalled callback result"

text \<open>
  The closure stored in \<^verbatim>\<open>taskFunc\<close>: \<^verbatim>\<open>[func, callback, h = handle, cfg]\<close>, with \<open>h\<close> the
  address of the shared \<^verbatim>\<open>TaskHandle\<close>.
\<close>

datatype ('cb, 'r) closure = TaskFunc "'r func" 'cb nat TaskConfig

record ('cb, 'r) world =
  heap :: "nat \<Rightarrow> TaskHandle"  \<comment> \<open>the \<^verbatim>\<open>TaskHandle\<close> objects behind the shared pointers\<close>
  callbackQueue :: "('cb, 'r) thunk list"  \<comment> \<open>\<^verbatim>\<open>CallbackQueue::instance()\<close>\<close>
  globalConfig :: AsyncConfig
  taskCounter :: uint32_t  \<comment> \<open>the static counter of \<^verbatim>\<open>run()\<close>\<close>
  contexts :: "nat \<Rightarrow> ('cb, 'r) closure option"  \<comment> \<open>the live execution contexts and their \<^verbatim>\<open>funcCopy\<close>\<close>
  trace :: "('cb, 'r) event list"

fun vTaskDelete :: "TaskHandle_t \<Rightarrow> (nat \<Rightarrow> 'x option) \<Rightarrow> (nat \<Rightarrow> 'x option)" where
  "vTaskDelete None ctxs = ctxs"
| "vTaskDelete (Some k) ctxs = ctxs(k := None)"

text \<open>The Launcher created the context \<open>k\<close>, which will run the wrapper on \<open>funcCopy\<close>.\<close>

definition created :: "nat \<Rightarrow> ('cb, 'r) closure \<Rightarrow> ('cb, 'r) world \<Rightarrow> ('cb, 'r) world" where
  "created k funcCopy w = w\<lparr>contexts := (contexts w)(k := Some funcCopy)\<rparr>"

text \<open>What another thread does to a shared \<^verbatim>\<open>TaskHandle\<close>.\<close>

datatype handle_op = DoCancel uint32_t | DoSetHandle uint32_t TaskHandle_t | DoSetState uint32_t TaskState

fun do_op :: "handle_op \<Rightarrow> TaskHandle \<Rightarrow> TaskHandle" where
  "do_op (DoCancel now) th = fst (cancel now th)"
| "do_op (DoSetHandle now h) th = setHandle now h th"
| "do_op (DoSetState now s) th = setState now s th"

fun deleted_by :: "handle_op \<Rightarrow> TaskHandle \<Rightarrow> TaskHandle_t" where
  "deleted_by (DoCancel now) th = snd (cancel now th)"
| "deleted_by (DoSetHandle now h) th = None"
| "deleted_by (DoSetState now s) th = None"

text \<open>\<open>on_handle a f\<close> is the call \<^verbatim>\<open>h->f()\<close> on the object at the address \<open>a\<close>.\<close>

definition on_handle ::
  "nat \<Rightarrow> (TaskHandle \<Rightarrow> TaskHandle) \<Rightarrow> ('cb, 'r) world \<Rightarrow> ('cb, 'r) world" where
  "on_handle a f w = w\<lparr>heap := (heap w)(a := f (heap w a))\<rparr>"

definition apply_handle_op :: "nat \<Rightarrow> handle_op \<Rightarrow> ('cb, 'r) world \<Rightarrow> ('cb, 'r) world" where
  "apply_handle_op a x w =
     on_handle a (do_op x) (w\<lparr>contexts := vTaskDelete (deleted_by x (heap w a)) (contexts w)\<rparr>)"

fun apply_handle_ops :: "nat \<Rightarrow> handle_op list \<Rightarrow> ('cb, 'r) world \<Rightarrow> ('cb, 'r) world" where
  "apply_handle_ops a [] w = w"
| "apply_handle_ops a (x # xs) w = apply_handle_ops a xs (apply_handle_op a x w)"

subsection \<open>Task\<close>

text \<open>The call \<^verbatim>\<open>func()\<close>: it is recorded, and the other threads act while it runs.\<close>

definition call_func :: "nat \<Rightarrow> handle_op list \<Rightarrow> ('cb, 'r) world \<Rightarrow> ('cb, 'r) world" where
  "call_func h during w = apply_handle_ops h during (w\<lparr>trace := trace w @ [FuncCalled h]\<rparr>)"

definition deliver :: "TaskConfig \<Rightarrow> ('cb, 'r) thunk \<Rightarrow> ('cb, 'r) world \<Rightarrow> ('cb, 'r) world" where
  "deliver cfg callbackWrapper w =
     (if executeInLoop cfg
      then w\<lparr>callbackQueue := enqueue callbackWrapper (callbackQueue w)\<rparr>
      else w\<lparr>trace := trace w @ [call_thunk callbackWrapper]\<rparr>)"

definition executeTask_void ::
  "unit call_result \<Rightarrow> 'cb \<Rightarrow> nat \<Rightarrow> TaskConfig \<Rightarrow> handle_op list \<Rightarrow> uint32_t \<Rightarrow>
   ('cb, 'r) world \<Rightarrow> ('cb, 'r) world" where
  "executeTask_void func callback h cfg during now w =
     (if isCancelled (heap w h) then w
      else
        let w1 = call_func h during w in
        (case func of
           Raised \<Rightarrow> on_handle h (setState now Failed) w1
         | Returned u \<Rightarrow>
             if \<not> isCancelled (heap w1 h)
             then deliver cfg (VoidCallbackWrapper callback)
                    (on_handle h (setState now Completed) w1)
             else w1))"

definition executeTask ::
  "'r call_result \<Rightarrow> 'cb \<Rightarrow> nat \<Rightarrow> TaskConfig \<Rightarrow> handle_op list \<Rightarrow> uint32_t \<Rightarrow>
   ('cb, 'r) world \<Rightarrow> ('cb, 'r) world" where
  "executeTask func callback h cfg during now w =
     (if isCancelled (heap w h) then w
      else
        let w1 = call_func h during w in
        (case func of
           Raised \<Rightarrow> on_handle h (setState now Failed) w1
         | Returned result \<Rightarrow>
             if \<not> isCancelled (heap w1 h)
             then deliver cfg (ResultCallbackWrapper callback result)
                    (on_handle h (setState now Completed) w1)
             else w1))"

fun call_taskFunc ::
  "('cb, 'r) closure \<Rightarrow> handle_op list \<Rightarrow> uint32_t \<Rightarrow> ('cb, 'r) world \<Rightarrow> ('cb, 'r) world" where
  "call_taskFunc (TaskFunc (VoidFunc func) callback h cfg) during now w =
     executeTask_void func callback h cfg during now w"
| "call_taskFunc (TaskFunc (ResultFunc func) callback h cfg) during now w =
     executeTask func callback h cfg during now w"

text \<open>
  The \<^verbatim>\<open>wrapper\<close> lambda of \<^verbatim>\<open>run()\<close>, as the body of the context \<open>k\<close>: it calls the copy of
  \<^verbatim>\<open>taskFunc\<close> and deletes its own context. A context that does not exist runs nothing.
\<close>

definition wrapper ::
  "nat \<Rightarrow> handle_op list \<Rightarrow> uint32_t \<Rightarrow> ('cb, 'r) world \<Rightarrow> ('cb, 'r) world" where
  "wrapper k during now w =
     (case contexts w k of
        None \<Rightarrow> w
      | Some funcCopy \<Rightarrow>
          let w1 = call_taskFunc funcCopy during now w
          in w1\<lparr>contexts := vTaskDelete (Some k) (contexts w1)\<rparr>)"

record ('cb, 'r) Task =
  handle :: "nat option"  \<comment> \<open>the shared pointer; \<open>None\<close> after the task was moved from\<close>
  config :: TaskConfig
  taskFunc :: "('cb, 'r) closure option"

text \<open>
  The constructors. \<^verbatim>\<open>std::make_shared<TaskHandle>()\<close> puts a new object at the address \<open>a\<close>
  the allocator chose.
\<close>

definition Task_init ::
  "BaseType_t \<Rightarrow> nat \<Rightarrow> ('cb, 'r) world \<Rightarrow> ('cb, 'r) Task \<times> ('cb, 'r) world" where
  "Task_init tskNO_AFFINITY a w =
     (\<lparr>handle = Some a, config = TaskConfig_init tskNO_AFFINITY, taskFunc = None\<rparr>,
      on_handle a (\<lambda>old. TaskHandle_init) w)"

definition Task_bind ::
  "'r func \<Rightarrow> 'cb \<Rightarrow> TaskConfig \<Rightarrow> nat \<Rightarrow> ('cb, 'r) world \<Rightarrow> ('cb, 'r) Task \<times> ('cb, 'r) world" where
  "Task_bind func callback cfg a w =
     (\<lparr>handle = Some a, config = cfg, taskFunc = Some (TaskFunc func callback a cfg)\<rparr>,
      on_handle a (\<lambda>old. TaskHandle_init) w)"

text \<open>The move constructor: the new task, and the task moved from.\<close>

definition Task_move :: "('cb, 'r) Task \<Rightarrow> ('cb, 'r) Task \<times> ('cb, 'r) Task" where
  "Task_move other = (other, other\<lparr>handle := None, taskFunc := None\<rparr>)"

fun digits10 :: "nat \<Rightarrow> string" where
  "digits10 n =
     (if n < 10 then [char_of (48 + n)] else digits10 (n div 10) @ [char_of (48 + n mod 10)])"

declare digits10.simps [simp del]

text \<open>\<^verbatim>\<open>snprintf(taskName, sizeof(taskName), "Task_%lu", taskCounter++)\<close> into 16 bytes.\<close>

definition auto_name :: "uint32_t \<Rightarrow> string" where
  "auto_name counter = take 15 (''Task_'' @ digits10 (unat counter))"

text \<open>
  The pointer \<^verbatim>\<open>config.name\<close> holds when \<^verbatim>\<open>run()\<close> calls the Launcher, and the one it holds
  when \<^verbatim>\<open>run()\<close> has returned: the code leaves the address of its local buffer in the
  configuration.
\<close>

definition effective_name :: "TaskConfig \<Rightarrow> uint32_t \<Rightarrow> name_ptr" where
  "effective_name cfg counter =
     (if name cfg = NullName then TaskNameBuffer (auto_name counter) else name cfg)"

fun after_return :: "name_ptr \<Rightarrow> name_ptr" where
  "after_return (TaskNameBuffer s) = DeadBuffer"
| "after_return NullName = NullName"
| "after_return (Literal s) = Literal s"
| "after_return DeadBuffer = DeadBuffer"

datatype launcher_call =
  xTaskCreatePinnedToCore name_ptr uint32_t UBaseType_t BaseType_t
| xTaskCreate name_ptr uint32_t UBaseType_t

definition effective_stackSize :: "TaskConfig \<Rightarrow> AsyncConfig \<Rightarrow> uint32_t" where
  "effective_stackSize cfg g = (if stackSize cfg > 0 then stackSize cfg else defaultStackSize g)"

definition effective_priority :: "TaskConfig \<Rightarrow> AsyncConfig \<Rightarrow> UBaseType_t" where
  "effective_priority cfg g = (if priority cfg > 0 then priority cfg else defaultPriority g)"

definition effective_core :: "BaseType_t \<Rightarrow> TaskConfig \<Rightarrow> AsyncConfig \<Rightarrow> BaseType_t" where
  "effective_core tskNO_AFFINITY cfg g =
     (if core cfg \<noteq> tskNO_AFFINITY then core cfg else defaultCore g)"

text \<open>The call \<^verbatim>\<open>run()\<close> makes to the Launcher, for a configuration whose name is \<open>nm\<close>.\<close>

definition launcher_request ::
  "BaseType_t \<Rightarrow> name_ptr \<Rightarrow> TaskConfig \<Rightarrow> AsyncConfig \<Rightarrow> launcher_call" where
  "launcher_request tskNO_AFFINITY nm cfg g =
     (if effective_core tskNO_AFFINITY cfg g \<noteq> tskNO_AFFINITY
      then xTaskCreatePinnedToCore nm (effective_stackSize cfg g) (effective_priority cfg g)
             (effective_core tskNO_AFFINITY cfg g)
      else xTaskCreate nm (effective_stackSize cfg g) (effective_priority cfg g))"

text \<open>
  \<^verbatim>\<open>run()\<close> returns its boolean, the task and the world. While it executes, the
  configuration holds the name \<open>nm\<close> it passes to the Launcher; the task it returns holds
  what that pointer is after the return. The result is \<open>None\<close> where the code dereferences a
  null \<^verbatim>\<open>handle\<close>.
\<close>

definition run ::
  "BaseType_t \<Rightarrow> (launcher_call \<Rightarrow> nat option) \<Rightarrow> uint32_t \<Rightarrow> ('cb, 'r) Task \<Rightarrow> ('cb, 'r) world \<Rightarrow>
   (bool \<times> ('cb, 'r) Task \<times> ('cb, 'r) world) option" where
  "run tskNO_AFFINITY launcher now t w =
     (case taskFunc t of
        None \<Rightarrow> Some (False, t, w)
      | Some funcCopy \<Rightarrow>
          let nm = effective_name (config t) (taskCounter w);
              w1 = (if name (config t) = NullName
                    then w\<lparr>taskCounter := taskCounter w + 1\<rparr>
                    else w);
              cfg = (config t)\<lparr>name := nm\<rparr>;
              t1 = t\<lparr>config := cfg\<lparr>name := after_return nm\<rparr>\<rparr>
          in
          (case launcher (launcher_request tskNO_AFFINITY nm cfg (globalConfig w1)) of
            None \<Rightarrow>
              (case handle t1 of
                 None \<Rightarrow> None
               | Some a \<Rightarrow>
                   Some (False, t1, on_handle a (setState now Failed) w1))
          | Some k \<Rightarrow>
              (case handle t1 of
                 None \<Rightarrow> None
               | Some a \<Rightarrow>
                   Some (True, t1,
                     on_handle a (setHandle now (Some k))
                       (created k funcCopy w1)))))"

definition Task_cancel :: "uint32_t \<Rightarrow> ('cb, 'r) Task \<Rightarrow> ('cb, 'r) world \<Rightarrow> ('cb, 'r) world" where
  "Task_cancel now t w =
     (case handle t of None \<Rightarrow> w | Some a \<Rightarrow> apply_handle_op a (DoCancel now) w)"

definition Task_getState :: "('cb, 'r) Task \<Rightarrow> ('cb, 'r) world \<Rightarrow> TaskState" where
  "Task_getState t w = (case handle t of None \<Rightarrow> Failed | Some a \<Rightarrow> getState (heap w a))"

definition Task_isRunning :: "('cb, 'r) Task \<Rightarrow> ('cb, 'r) world \<Rightarrow> bool" where
  "Task_isRunning t w = (case handle t of None \<Rightarrow> False | Some a \<Rightarrow> isRunning (heap w a))"

definition Task_isCancelled :: "('cb, 'r) Task \<Rightarrow> ('cb, 'r) world \<Rightarrow> bool" where
  "Task_isCancelled t w = (case handle t of None \<Rightarrow> False | Some a \<Rightarrow> isCancelled (heap w a))"

definition Task_getExecutionTime :: "uint32_t \<Rightarrow> ('cb, 'r) Task \<Rightarrow> ('cb, 'r) world \<Rightarrow> uint32_t" where
  "Task_getExecutionTime now t w =
     (case handle t of None \<Rightarrow> 0 | Some a \<Rightarrow> getExecutionTime now (heap w a))"

subsection \<open>Async\<close>

definition Async_setConfig :: "AsyncConfig \<Rightarrow> ('cb, 'r) world \<Rightarrow> ('cb, 'r) world" where
  "Async_setConfig cfg w = w\<lparr>globalConfig := cfg\<rparr>"

text \<open>A thunk that \<^verbatim>\<open>process()\<close> calls calls its completion callable: the trace records it.\<close>

definition Async_update ::
  "bool \<Rightarrow> ('cb, 'r) thunk list list \<Rightarrow> ('cb, 'r) world \<Rightarrow> ('cb, 'r) world" where
  "Async_update busy arrivals w =
     (if executeCallbacksInLoop (globalConfig w)
      then w\<lparr>callbackQueue := fst (process busy arrivals (callbackQueue w)),
             trace := trace w @ map call_thunk (snd (process busy arrivals (callbackQueue w)))\<rparr>
      else w)"

definition Async_pendingCallbacks :: "('cb, 'r) world \<Rightarrow> nat" where
  "Async_pendingCallbacks w = size_queue (callbackQueue w)"

definition Async_Create ::
  "'r func \<Rightarrow> 'cb \<Rightarrow> TaskConfig \<Rightarrow> nat \<Rightarrow> ('cb, 'r) world \<Rightarrow> ('cb, 'r) Task \<times> ('cb, 'r) world" where
  "Async_Create func cb cfg a w = Task_bind func cb cfg a w"

text \<open>\<^verbatim>\<open>Run\<close> ignores what \<^verbatim>\<open>run()\<close> returns.\<close>

definition Async_Run ::
  "BaseType_t \<Rightarrow> (launcher_call \<Rightarrow> nat option) \<Rightarrow> uint32_t \<Rightarrow> 'r func \<Rightarrow> 'cb \<Rightarrow> TaskConfig \<Rightarrow> nat \<Rightarrow>
   ('cb, 'r) world \<Rightarrow> (('cb, 'r) Task \<times> ('cb, 'r) world) option" where
  "Async_Run tskNO_AFFINITY launcher now func cb cfg a w =
     (case run tskNO_AFFINITY launcher now (fst (Task_bind func cb cfg a w))
             (snd (Task_bind func cb cfg a w)) of
        None \<Rightarrow> None
      | Some (ok, t, w1) \<Rightarrow> Some (t, w1))"

definition Async_RunOnCore ::
  "BaseType_t \<Rightarrow> (launcher_call \<Rightarrow> nat option) \<Rightarrow> uint32_t \<Rightarrow> BaseType_t \<Rightarrow> 'r func \<Rightarrow> 'cb \<Rightarrow>
   nat \<Rightarrow> ('cb, 'r) world \<Rightarrow> (('cb, 'r) Task \<times> ('cb, 'r) world) option" where
  "Async_RunOnCore tskNO_AFFINITY launcher now c func cb a w =
     Async_Run tskNO_AFFINITY launcher now func cb
       ((TaskConfig_init tskNO_AFFINITY)\<lparr>core := c\<rparr>) a w"

definition Async_RunWithPriority ::
  "BaseType_t \<Rightarrow> (launcher_call \<Rightarrow> nat option) \<Rightarrow> uint32_t \<Rightarrow> UBaseType_t \<Rightarrow> 'r func \<Rightarrow> 'cb \<Rightarrow>
   nat \<Rightarrow> ('cb, 'r) world \<Rightarrow> (('cb, 'r) Task \<times> ('cb, 'r) world) option" where
  "Async_RunWithPriority tskNO_AFFINITY launcher now p func cb a w =
     Async_Run tskNO_AFFINITY launcher now func cb
       ((TaskConfig_init tskNO_AFFINITY)\<lparr>priority := p\<rparr>) a w"

text \<open>The world before \<^verbatim>\<open>setup()\<close>: no task, an empty queue, the default configuration.\<close>

definition world_init :: "BaseType_t \<Rightarrow> ('cb, 'r) world" where
  "world_init tskNO_AFFINITY =
     \<lparr>heap = (\<lambda>a. TaskHandle_init), callbackQueue = [],
      globalConfig = AsyncConfig_init tskNO_AFFINITY, taskCounter = 0,
      contexts = (\<lambda>k. None), trace = []\<rparr>"

text \<open>Whether an operation on a \<^verbatim>\<open>TaskHandle\<close> is \<^verbatim>\<open>setHandle\<close>, the one that writes \<^verbatim>\<open>startTime\<close>.\<close>

fun stamps_start :: "handle_op \<Rightarrow> bool" where
  "stamps_start (DoCancel now) = False"
| "stamps_start (DoSetHandle now h) = True"
| "stamps_start (DoSetState now s) = False"

subsection \<open>The sample application\<close>

text \<open>
  \<^verbatim>\<open>setup()\<close> of \<^verbatim>\<open>src/main.cpp\<close> configures the library like this; the value of
  \<^verbatim>\<open>tskNO_AFFINITY\<close> is the one of the ESP32 port.
\<close>

definition esp32_NO_AFFINITY :: BaseType_t where
  "esp32_NO_AFFINITY = 0x7FFFFFFF"

definition sample_config :: AsyncConfig where
  "sample_config =
     \<lparr>defaultStackSize = 8192, defaultPriority = 2, defaultCore = 0,
      maxConcurrentTasks = 5, executeCallbacksInLoop = False\<rparr>"

definition sample_world :: "(nat, nat) world" where
  "sample_world = Async_setConfig sample_config (world_init esp32_NO_AFFINITY)"

text \<open>Two Launchers: one that always creates the context 1, one that never creates any.\<close>

definition launcher_ok :: "launcher_call \<Rightarrow> nat option" where
  "launcher_ok c = Some 1"

definition launcher_fails :: "launcher_call \<Rightarrow> nat option" where
  "launcher_fails c = None"

text \<open>
  The configurations of the sample tasks: \<^verbatim>\<open>updateCfg\<close> of \<^verbatim>\<open>src/main.cpp\<close> (a name and a core,
  the rest unset) and \<^verbatim>\<open>taskCfg\<close> of the second sample (every field set). The tasks bound
  with them at the address 3, and one bound with the empty configuration in the default
  world; their work callables return and their completion callable is number 0.
\<close>

definition update_cfg :: TaskConfig where
  "update_cfg = (TaskConfig_init esp32_NO_AFFINITY)\<lparr>name := Literal ''UpdateTask'', core := 1\<rparr>"

definition endless_cfg :: TaskConfig where
  "endless_cfg =
     \<lparr>stackSize = 2048, priority = 1, core = 1, name = Literal ''EndlessTask'',
      timeoutMs = 2000, executeInLoop = True\<rparr>"

definition update_task :: "(nat, nat) Task \<times> (nat, nat) world" where
  "update_task = Task_bind (VoidFunc (Returned ())) 0 update_cfg 3 sample_world"

definition default_task :: "(nat, nat) Task \<times> (nat, nat) world" where
  "default_task =
     Task_bind (VoidFunc (Returned ())) 0 (TaskConfig_init esp32_NO_AFFINITY) 3
       (world_init esp32_NO_AFFINITY)"

text \<open>A Launcher that creates the context 1 for one request and fails for every other.\<close>

definition launcher_expecting :: "launcher_call \<Rightarrow> launcher_call \<Rightarrow> nat option" where
  "launcher_expecting expected c = (if c = expected then Some 1 else None)"

subsection \<open>What \<^verbatim>\<open>run()\<close> leaves behind\<close>

text \<open>
  The parts of \<^verbatim>\<open>run()\<close> after the test of \<^verbatim>\<open>taskFunc\<close>: the task as \<^verbatim>\<open>run()\<close> returns it, the
  world with the counter advanced when the name was generated, and the request made to the
  Launcher.
\<close>

definition named :: "('cb, 'r) Task \<Rightarrow> ('cb, 'r) world \<Rightarrow> ('cb, 'r) Task" where
  "named t w =
     t\<lparr>config := (config t)\<lparr>name := after_return (effective_name (config t) (taskCounter w))\<rparr>\<rparr>"

definition counted :: "('cb, 'r) Task \<Rightarrow> ('cb, 'r) world \<Rightarrow> ('cb, 'r) world" where
  "counted t w =
     (if name (config t) = NullName then w\<lparr>taskCounter := taskCounter w + 1\<rparr> else w)"

definition request_of :: "BaseType_t \<Rightarrow> ('cb, 'r) Task \<Rightarrow> ('cb, 'r) world \<Rightarrow> launcher_call" where
  "request_of tskNO_AFFINITY t w =
     launcher_request tskNO_AFFINITY (effective_name (config t) (taskCounter w))
       ((config t)\<lparr>name := effective_name (config t) (taskCounter w)\<rparr>) (globalConfig w)"

subsection \<open>Sequences of operations on one task\<close>

text \<open>
  The operations the lifecycle goes through: \<^verbatim>\<open>run()\<close> with the Launcher's answer,
  \<^verbatim>\<open>cancel()\<close>, the setters of the task's \<^verbatim>\<open>TaskHandle\<close>, and the wrapper body of a context.
  An operation that dereferences a null \<^verbatim>\<open>handle\<close> has no result.
\<close>

datatype operation =
  OpRun "nat option" uint32_t
| OpCancel uint32_t
| OpSetHandle uint32_t TaskHandle_t
| OpSetState uint32_t TaskState
| OpWrapper nat "handle_op list" uint32_t

fun apply_op ::
  "BaseType_t \<Rightarrow> operation \<Rightarrow> ('cb, 'r) Task \<times> ('cb, 'r) world \<Rightarrow>
   (('cb, 'r) Task \<times> ('cb, 'r) world) option" where
  "apply_op tskNO_AFFINITY (OpRun answer now) (t, w) =
     (case run tskNO_AFFINITY (\<lambda>c. answer) now t w of
        None \<Rightarrow> None
      | Some (ok, t1, w1) \<Rightarrow> Some (t1, w1))"
| "apply_op tskNO_AFFINITY (OpCancel now) (t, w) = Some (t, Task_cancel now t w)"
| "apply_op tskNO_AFFINITY (OpSetHandle now h) (t, w) =
     (case handle t of None \<Rightarrow> None | Some a \<Rightarrow> Some (t, on_handle a (setHandle now h) w))"
| "apply_op tskNO_AFFINITY (OpSetState now s) (t, w) =
     (case handle t of None \<Rightarrow> None | Some a \<Rightarrow> Some (t, on_handle a (setState now s) w))"
| "apply_op tskNO_AFFINITY (OpWrapper k during now) (t, w) = Some (t, wrapper k during now w)"

text \<open>The lifecycle state \<^verbatim>\<open>getState()\<close> reports after each operation of a sequence.\<close>

fun states_after ::
  "BaseType_t \<Rightarrow> operation list \<Rightarrow> ('cb, 'r) Task \<times> ('cb, 'r) world \<Rightarrow> TaskState list" where
  "states_after tskNO_AFFINITY [] tw = []"
| "states_after tskNO_AFFINITY (x # xs) tw =
     (case apply_op tskNO_AFFINITY x tw of
        None \<Rightarrow> []
      | Some tw1 \<Rightarrow> Task_getState (fst tw1) (snd tw1) # states_after tskNO_AFFINITY xs tw1)"

text \<open>One step forward in the lifecycle, or none.\<close>

definition forward :: "TaskState \<Rightarrow> TaskState \<Rightarrow> bool" where
  "forward s s1 =
     (s1 = s
      \<or> (s = Pending \<and> (s1 = Running \<or> s1 = Failed))
      \<or> (s = Running \<and> (s1 = Completed \<or> s1 = Failed \<or> s1 = Cancelled)))"

text \<open>
  The sequences in which \<^verbatim>\<open>run()\<close> is called on a \<open>Pending\<close> task only, the setters are not
  called from outside, and no other thread acts on the \<^verbatim>\<open>TaskHandle\<close> while a work callable
  runs.
\<close>

fun guarded :: "operation \<Rightarrow> ('cb, 'r) Task \<times> ('cb, 'r) world \<Rightarrow> bool" where
  "guarded (OpRun answer now) tw = (Task_getState (fst tw) (snd tw) = Pending)"
| "guarded (OpCancel now) tw = True"
| "guarded (OpSetHandle now h) tw = False"
| "guarded (OpSetState now s) tw = False"
| "guarded (OpWrapper k during now) tw = (during = [])"

fun guarded_run ::
  "BaseType_t \<Rightarrow> operation list \<Rightarrow> ('cb, 'r) Task \<times> ('cb, 'r) world \<Rightarrow> bool" where
  "guarded_run tskNO_AFFINITY [] tw = True"
| "guarded_run tskNO_AFFINITY (x # xs) tw =
     (guarded x tw \<and>
      (case apply_op tskNO_AFFINITY x tw of
         None \<Rightarrow> True
       | Some tw1 \<Rightarrow> guarded_run tskNO_AFFINITY xs tw1))"

text \<open>The \<^verbatim>\<open>TaskHandle\<close> a closure captured.\<close>

fun closure_handle :: "('cb, 'r) closure \<Rightarrow> nat" where
  "closure_handle (TaskFunc func callback h cfg) = h"

text \<open>
  What holds of a task bound at the address \<open>a\<close> with the closure \<open>F\<close> along such a sequence:
  every live context whose closure captured \<open>a\<close> runs \<open>F\<close>, and while one lives the task is
  \<open>Running\<close> with that context as its handle.
\<close>

definition lifecycle_inv ::
  "nat \<Rightarrow> ('cb, 'r) closure \<Rightarrow> ('cb, 'r) Task \<times> ('cb, 'r) world \<Rightarrow> bool" where
  "lifecycle_inv a F tw =
     (handle (fst tw) = Some a \<and> taskFunc (fst tw) = Some F \<and> closure_handle F = a
      \<and> (\<forall>k f. contexts (snd tw) k = Some f \<and> closure_handle f = a \<longrightarrow>
            f = F \<and> state (heap (snd tw) a) = Running \<and> taskHandle (heap (snd tw) a) = Some k))"

text \<open>
  The stage of a state in the lifecycle, and "at the same state, or at a later stage": the
  relation a state bears to every state that follows it when nothing goes back.
\<close>

fun stage :: "TaskState \<Rightarrow> nat" where
  "stage Pending = 0"
| "stage Running = 1"
| "stage Completed = 2"
| "stage Failed = 2"
| "stage Cancelled = 2"

definition never_back :: "TaskState \<Rightarrow> TaskState \<Rightarrow> bool" where
  "never_back s s1 = (s1 = s \<or> stage s < stage s1)"

section \<open>Properties\<close>

subsection \<open>TaskHandle\<close>

lemma cancel_idle:
  "state th \<noteq> Running \<Longrightarrow> cancel now th = (th\<lparr>cancelled := True\<rparr>, None)"
  by (simp add: cancel_def)

lemma cancel_running:
  "state th = Running \<Longrightarrow> taskHandle th = Some k \<Longrightarrow>
   cancel now th =
     (th\<lparr>cancelled := True, state := Cancelled, endTime := now, taskHandle := None\<rparr>, Some k)"
  by (simp add: cancel_def setState_def)

lemma startTime_do_op: "\<not> stamps_start x \<Longrightarrow> startTime (do_op x th) = startTime th"
  by (cases x) (simp_all add: cancel_def setState_def Let_def)

lemma startTime_fold_do_op:
  "list_all (\<lambda>x. \<not> stamps_start x) ops \<Longrightarrow> startTime (fold do_op ops th) = startTime th"
  by (induction ops arbitrary: th) (simp_all add: startTime_do_op)

text \<open>
  C9: \<^verbatim>\<open>cancel()\<close> on a task that is not \<open>Running\<close> (\<open>Pending\<close>, or in a terminal state)
  sets the cancellation flag and nothing else: the lifecycle state, the context handle and
  both timestamps keep their values, nothing is handed to \<^verbatim>\<open>vTaskDelete\<close>, and afterwards
  \<^verbatim>\<open>isCancelled()\<close> is true and \<^verbatim>\<open>isRunning()\<close> is false. This holds of the
  \<^verbatim>\<open>TaskHandle\<close>, and through \<^verbatim>\<open>Task::cancel()\<close> of every task that holds it.
\<close>

theorem cancel_not_running_sets_only_flag:
  assumes "state th \<noteq> Running"
  shows "cancel now th = (th\<lparr>cancelled := True\<rparr>, None)
       \<and> state (fst (cancel now th)) = state th
       \<and> taskHandle (fst (cancel now th)) = taskHandle th
       \<and> startTime (fst (cancel now th)) = startTime th
       \<and> endTime (fst (cancel now th)) = endTime th
       \<and> isCancelled (fst (cancel now th))
       \<and> \<not> isRunning (fst (cancel now th))
       \<and> (\<forall>(t :: ('cb, 'r) Task) w a. handle t = Some a \<and> heap w a = th \<longrightarrow>
            Task_cancel now t w = on_handle a (\<lambda>th. th\<lparr>cancelled := True\<rparr>) w
          \<and> contexts (Task_cancel now t w) = contexts w
          \<and> Task_getState t (Task_cancel now t w) = Task_getState t w
          \<and> Task_getExecutionTime later t (Task_cancel now t w) = Task_getExecutionTime later t w
          \<and> Task_isCancelled t (Task_cancel now t w)
          \<and> \<not> Task_isRunning t (Task_cancel now t w))"
  using assms
  by (simp add: Task_cancel_def apply_handle_op_def on_handle_def cancel_idle
      Task_getState_def Task_isCancelled_def Task_isRunning_def Task_getExecutionTime_def
      getExecutionTime_def getState_def isCancelled_def isRunning_def)

text \<open>
  The theorem at a task that was bound and is cancelled before it ran (\<open>Pending\<close>), and at a
  \<^verbatim>\<open>TaskHandle\<close> whose launch failed at time 15 (\<open>Failed\<close>).
\<close>

theorem cancel_not_running_sets_only_flag_witness:
  "Task_getState (fst (Task_bind (ResultFunc (Returned 7)) 0 (TaskConfig_init 9) 3 (world_init 9)))
      (Task_cancel 20 (fst (Task_bind (ResultFunc (Returned 7)) 0 (TaskConfig_init 9) 3 (world_init 9)))
        (snd (Task_bind (ResultFunc (Returned (7::nat))) (0::nat) (TaskConfig_init 9) 3 (world_init 9))))
     = Pending
   \<and> Task_isCancelled (fst (Task_bind (ResultFunc (Returned 7)) 0 (TaskConfig_init 9) 3 (world_init 9)))
      (Task_cancel 20 (fst (Task_bind (ResultFunc (Returned 7)) 0 (TaskConfig_init 9) 3 (world_init 9)))
        (snd (Task_bind (ResultFunc (Returned (7::nat))) (0::nat) (TaskConfig_init 9) 3 (world_init 9))))
   \<and> \<not> Task_isRunning (fst (Task_bind (ResultFunc (Returned 7)) 0 (TaskConfig_init 9) 3 (world_init 9)))
      (Task_cancel 20 (fst (Task_bind (ResultFunc (Returned 7)) 0 (TaskConfig_init 9) 3 (world_init 9)))
        (snd (Task_bind (ResultFunc (Returned (7::nat))) (0::nat) (TaskConfig_init 9) 3 (world_init 9))))
   \<and> fst (cancel 20 (setState 15 Failed TaskHandle_init))
     = \<lparr>taskHandle = None, state = Failed, cancelled = True, startTime = 0, endTime = 15\<rparr>
   \<and> snd (cancel 20 (setState 15 Failed TaskHandle_init)) = None"
proof -
  define t :: "(nat, nat) Task"
    where "t = fst (Task_bind (ResultFunc (Returned 7)) 0 (TaskConfig_init 9) 3 (world_init 9))"
  define w :: "(nat, nat) world"
    where "w = snd (Task_bind (ResultFunc (Returned 7)) 0 (TaskConfig_init 9) 3 (world_init 9))"
  have h: "handle t = Some 3"
    by (simp add: t_def Task_bind_def)
  have w3: "heap w 3 = TaskHandle_init"
    by (simp add: w_def Task_bind_def on_handle_def)
  have p: "state TaskHandle_init \<noteq> Running"
    by (simp add: TaskHandle_init_def)
  have f: "state (setState 15 Failed TaskHandle_init) \<noteq> Running"
    by (simp add: setState_def)
  note pending = cancel_not_running_sets_only_flag [OF p, of 20, where ?'cb = nat and ?'r = nat]
  note failed = cancel_not_running_sets_only_flag [OF f, of 20, where ?'cb = nat and ?'r = nat]
  from pending h w3 have p1: "Task_getState t (Task_cancel 20 t w) = Task_getState t w"
    and p2: "Task_isCancelled t (Task_cancel 20 t w)"
    and p3: "\<not> Task_isRunning t (Task_cancel 20 t w)"
    by blast+
  from failed have f1: "cancel 20 (setState 15 Failed TaskHandle_init)
      = ((setState 15 Failed TaskHandle_init)\<lparr>cancelled := True\<rparr>, None)"
    by blast
  have s: "Task_getState t w = Pending"
    by (simp add: Task_getState_def getState_def h w3 TaskHandle_init_def)
  have f2: "fst (cancel 20 (setState 15 Failed TaskHandle_init))
      = \<lparr>taskHandle = None, state = Failed, cancelled = True, startTime = 0, endTime = 15\<rparr>"
    and f3: "snd (cancel 20 (setState 15 Failed TaskHandle_init)) = None"
    by (simp_all add: f1) (simp add: setState_def TaskHandle_init_def)
  show ?thesis
    unfolding t_def [symmetric] w_def [symmetric]
    by (simp add: p1 p2 p3 f2 f3 s)
qed

text \<open>
  C10, as the claim states it, fails when \<^verbatim>\<open>millis()\<close> is 0 at the stamp: a task started at
  time 0 and still running reports 0 at time 5, not 5 - 0.
\<close>

theorem getExecutionTime_start_at_zero_counterexample:
  "state (setHandle 0 (Some 1) TaskHandle_init) = Running
   \<and> endTime (setHandle 0 (Some 1) TaskHandle_init) = 0
   \<and> getExecutionTime 5 (setHandle 0 (Some 1) TaskHandle_init)
       \<noteq> 5 - startTime (setHandle 0 (Some 1) TaskHandle_init)"
  by (simp add: setHandle_def TaskHandle_init_def getExecutionTime_def)

text \<open>
  C10, amended: \<^verbatim>\<open>getExecutionTime()\<close> returns 0 for a task on which \<^verbatim>\<open>setHandle\<close> never ran,
  whatever \<^verbatim>\<open>cancel()\<close> and \<^verbatim>\<open>setState()\<close> calls came before (a launch failure is
  \<^verbatim>\<open>setState(Failed)\<close>). After \<^verbatim>\<open>setHandle\<close> at a time \<open>t0\<close> other than 0 and with no end time
  stamped it returns \<open>now - t0\<close>; once a terminal state was entered at a time \<open>t1\<close> other than
  0, by \<^verbatim>\<open>setState\<close> or by \<^verbatim>\<open>cancel()\<close>, it returns \<open>t1 - t0\<close>. The value 0 of a timestamp means
  "not stamped", so a stamp taken when \<^verbatim>\<open>millis()\<close> is 0 does not count.
\<close>

theorem getExecutionTime_cases:
  "(list_all (\<lambda>x. \<not> stamps_start x) ops \<longrightarrow>
      getExecutionTime now (fold do_op ops TaskHandle_init) = 0)
   \<and> (t0 \<noteq> 0 \<and> endTime th = 0 \<longrightarrow> getExecutionTime now (setHandle t0 h th) = now - t0)
   \<and> (t0 \<noteq> 0 \<and> t1 \<noteq> 0 \<and> (s = Completed \<or> s = Failed \<or> s = Cancelled) \<longrightarrow>
        getExecutionTime now (setState t1 s (setHandle t0 h th)) = t1 - t0)
   \<and> (t0 \<noteq> 0 \<and> t1 \<noteq> 0 \<longrightarrow>
        getExecutionTime now (fst (cancel t1 (setHandle t0 (Some k) th))) = t1 - t0)"
proof -
  have "list_all (\<lambda>x. \<not> stamps_start x) ops \<Longrightarrow>
        getExecutionTime now (fold do_op ops TaskHandle_init) = 0"
    by (simp add: getExecutionTime_def startTime_fold_do_op TaskHandle_init_def)
  moreover have "t0 \<noteq> 0 \<Longrightarrow> endTime th = 0 \<Longrightarrow>
        getExecutionTime now (setHandle t0 h th) = now - t0"
    by (simp add: getExecutionTime_def setHandle_def)
  moreover have "t0 \<noteq> 0 \<Longrightarrow> t1 \<noteq> 0 \<Longrightarrow> s = Completed \<or> s = Failed \<or> s = Cancelled \<Longrightarrow>
        getExecutionTime now (setState t1 s (setHandle t0 h th)) = t1 - t0"
    by (auto simp add: getExecutionTime_def setHandle_def setState_def)
  moreover have "t0 \<noteq> 0 \<Longrightarrow> t1 \<noteq> 0 \<Longrightarrow>
        getExecutionTime now (fst (cancel t1 (setHandle t0 (Some k) th))) = t1 - t0"
    by (simp add: getExecutionTime_def setHandle_def cancel_def setState_def)
  ultimately show ?thesis by blast
qed

theorem getExecutionTime_cases_witness:
  "getExecutionTime 9 (fold do_op [DoCancel 3, DoSetState 4 Failed, DoCancel 5] TaskHandle_init) = 0
   \<and> getExecutionTime 9 (setHandle 2 (Some 1) TaskHandle_init) = 7
   \<and> getExecutionTime 9 (setState 6 Completed (setHandle 2 (Some 1) TaskHandle_init)) = 4
   \<and> getExecutionTime 9 (fst (cancel 6 (setHandle 2 (Some 1) TaskHandle_init))) = 4"
  using getExecutionTime_cases [of "[DoCancel 3, DoSetState 4 Failed, DoCancel 5]" 9 2
      TaskHandle_init "Some 1" 6 Completed 1]
  by (simp add: TaskHandle_init_def)

subsection \<open>The queue and the world: what each operation leaves alone\<close>

lemma xSemaphoreTake_blocking [simp]: "xSemaphoreTake busy portMAX_DELAY"
  by (simp add: xSemaphoreTake_def)

lemma enqueue_append [simp]: "enqueue c q = q @ [c]"
  by (simp add: enqueue_def)

lemma process_loop_drains:
  "\<exists>n. process_loop q arrivals executed = ([], executed @ q @ concat (take n arrivals))"
proof (induction q arrivals executed rule: process_loop.induct)
  case (1 arrivals executed)
  show ?case by (intro exI [of _ 0]) simp
next
  case (2 callback rest arrivals executed)
  then obtain n where n: "process_loop (rest @ arrived arrivals) (tl arrivals) (executed @ [callback])
      = ([], (executed @ [callback]) @ (rest @ arrived arrivals) @ concat (take n (tl arrivals)))"
    by auto
  have "arrived arrivals @ concat (take n (tl arrivals)) = concat (take (Suc n) arrivals)"
    by (cases arrivals) simp_all
  with n show ?case
    by (intro exI [of _ "Suc n"]) simp
qed

lemma process_loop_no_arrivals: "process_loop q [] executed = ([], executed @ q)"
  using process_loop_drains [of q "[]" executed] by simp

lemma process_free: "\<exists>n. process False arrivals q = ([], q @ concat (take n arrivals))"
  using process_loop_drains [of q arrivals "[]"] by (simp add: process_def xSemaphoreTake_def)

lemma process_busy: "process True arrivals q = (q, [])"
  by (simp add: process_def xSemaphoreTake_def)

lemma process_free_no_arrivals: "process False [] q = ([], q)"
  by (simp add: process_def xSemaphoreTake_def process_loop_no_arrivals)

lemma trace_on_handle [simp]: "trace (on_handle a f w) = trace w"
  and callbackQueue_on_handle [simp]: "callbackQueue (on_handle a f w) = callbackQueue w"
  and globalConfig_on_handle [simp]: "globalConfig (on_handle a f w) = globalConfig w"
  and contexts_on_handle [simp]: "contexts (on_handle a f w) = contexts w"
  and taskCounter_on_handle [simp]: "taskCounter (on_handle a f w) = taskCounter w"
  and heap_on_handle_same [simp]: "heap (on_handle a f w) a = f (heap w a)"
  and heap_on_handle_other [simp]: "b \<noteq> a \<Longrightarrow> heap (on_handle a f w) b = heap w b"
  by (simp_all add: on_handle_def)

lemma trace_apply_handle_op [simp]: "trace (apply_handle_op a x w) = trace w"
  and callbackQueue_apply_handle_op [simp]: "callbackQueue (apply_handle_op a x w) = callbackQueue w"
  and globalConfig_apply_handle_op [simp]: "globalConfig (apply_handle_op a x w) = globalConfig w"
  and heap_apply_handle_op_same [simp]: "heap (apply_handle_op a x w) a = do_op x (heap w a)"
  and heap_apply_handle_op_other [simp]: "b \<noteq> a \<Longrightarrow> heap (apply_handle_op a x w) b = heap w b"
  by (simp_all add: apply_handle_op_def)

lemma trace_apply_handle_ops [simp]: "trace (apply_handle_ops a xs w) = trace w"
  by (induction xs arbitrary: w) simp_all

lemma callbackQueue_apply_handle_ops [simp]:
  "callbackQueue (apply_handle_ops a xs w) = callbackQueue w"
  by (induction xs arbitrary: w) simp_all

lemma globalConfig_apply_handle_ops [simp]:
  "globalConfig (apply_handle_ops a xs w) = globalConfig w"
  by (induction xs arbitrary: w) simp_all

lemma heap_apply_handle_ops_same: "heap (apply_handle_ops a xs w) a = fold do_op xs (heap w a)"
  by (induction xs arbitrary: w) simp_all

lemma heap_apply_handle_ops_other [simp]:
  "b \<noteq> a \<Longrightarrow> heap (apply_handle_ops a xs w) b = heap w b"
  by (induction xs arbitrary: w) simp_all

lemma trace_call_func [simp]: "trace (call_func h during w) = trace w @ [FuncCalled h]"
  and callbackQueue_call_func [simp]: "callbackQueue (call_func h during w) = callbackQueue w"
  and globalConfig_call_func [simp]: "globalConfig (call_func h during w) = globalConfig w"
  and heap_call_func_other [simp]: "b \<noteq> h \<Longrightarrow> heap (call_func h during w) b = heap w b"
  by (simp_all add: call_func_def)

lemma heap_call_func_same: "heap (call_func h during w) h = fold do_op during (heap w h)"
  by (simp add: call_func_def heap_apply_handle_ops_same)

lemma call_func_undisturbed: "call_func h [] w = w\<lparr>trace := trace w @ [FuncCalled h]\<rparr>"
  by (simp add: call_func_def)

lemma deliver_queued:
  "executeInLoop cfg \<Longrightarrow> deliver cfg c w = w\<lparr>callbackQueue := callbackQueue w @ [c]\<rparr>"
  by (simp add: deliver_def)

lemma deliver_inline:
  "\<not> executeInLoop cfg \<Longrightarrow> deliver cfg c w = w\<lparr>trace := trace w @ [call_thunk c]\<rparr>"
  by (simp add: deliver_def)

lemma heap_deliver [simp]: "heap (deliver cfg c w) = heap w"
  and globalConfig_deliver [simp]: "globalConfig (deliver cfg c w) = globalConfig w"
  by (simp_all add: deliver_def)

lemma Async_update_off:
  "\<not> executeCallbacksInLoop (globalConfig w) \<Longrightarrow> Async_update busy arrivals w = w"
  by (simp add: Async_update_def)

lemma Async_update_on:
  "executeCallbacksInLoop (globalConfig w) \<Longrightarrow>
   callbackQueue (Async_update False [] w) = []
   \<and> trace (Async_update False [] w) = trace w @ map call_thunk (callbackQueue w)"
  by (simp add: Async_update_def process_free_no_arrivals)

lemma executeTask_returns:
  assumes "\<not> isCancelled (heap w h)" and "\<not> isCancelled (heap (call_func h during w) h)"
  shows "executeTask (Returned v) callback h cfg during now w
         = deliver cfg (ResultCallbackWrapper callback v)
             (on_handle h (setState now Completed) (call_func h during w))"
  using assms by (simp add: executeTask_def)

lemma executeTask_void_returns:
  assumes "\<not> isCancelled (heap w h)" and "\<not> isCancelled (heap (call_func h during w) h)"
  shows "executeTask_void (Returned u) callback h cfg during now w
         = deliver cfg (VoidCallbackWrapper callback)
             (on_handle h (setState now Completed) (call_func h during w))"
  using assms by (simp add: executeTask_void_def)

lemma heap_world_init [simp]: "heap (world_init n) a = TaskHandle_init"
  and trace_world_init [simp]: "trace (world_init n) = []"
  and callbackQueue_world_init [simp]: "callbackQueue (world_init n) = []"
  and globalConfig_world_init [simp]: "globalConfig (world_init n) = AsyncConfig_init n"
  and contexts_world_init [simp]: "contexts (world_init n) k = None"
  and taskCounter_world_init [simp]: "taskCounter (world_init n) = 0"
  by (simp_all add: world_init_def)

lemma heap_sample_world [simp]: "heap sample_world a = TaskHandle_init"
  and trace_sample_world [simp]: "trace sample_world = []"
  and callbackQueue_sample_world [simp]: "callbackQueue sample_world = []"
  and globalConfig_sample_world [simp]: "globalConfig sample_world = sample_config"
  and contexts_sample_world [simp]: "contexts sample_world k = None"
  by (simp_all add: sample_world_def Async_setConfig_def world_init_def)

lemma fresh_not_cancelled [simp]: "\<not> isCancelled TaskHandle_init"
  by (simp add: isCancelled_def TaskHandle_init_def)

subsection \<open>The wrapper body\<close>

text \<open>
  C4, as the claim states it, fails where the thunk is queued and no drain runs it. In the
  configuration of the sample application (\<^verbatim>\<open>executeCallbacksInLoop = false\<close>, the task's
  \<^verbatim>\<open>executeInLoop\<close> left at \<^verbatim>\<open>true\<close>) a work callable returns 42 with no cancellation; the
  state is \<open>Completed\<close>, and after \<^verbatim>\<open>update()\<close> the completion callable has been called zero
  times.
\<close>

theorem result_never_invoked_counterexample:
  "\<not> isCancelled (heap sample_world 3)
   \<and> state (heap (executeTask (Returned 42) 0 3 (TaskConfig_init esp32_NO_AFFINITY) [] 20
        sample_world) 3) = Completed
   \<and> trace (Async_update False []
        (executeTask (Returned 42) 0 3 (TaskConfig_init esp32_NO_AFFINITY) [] 20 sample_world))
      = [FuncCalled 3]
   \<and> CallbackCalled 0 42 \<notin> set (trace (Async_update False []
        (executeTask (Returned 42) 0 3 (TaskConfig_init esp32_NO_AFFINITY) [] 20 sample_world)))"
  by (simp add: sample_world_def sample_config_def Async_setConfig_def world_init_def
      TaskHandle_init_def isCancelled_def executeTask_def call_func_undisturbed deliver_def
      TaskConfig_init_def on_handle_def setState_def Async_update_def)

text \<open>
  C4, amended: for a result-producing task whose work callable returns the value \<open>v\<close>, the
  cancellation flag being clear when the wrapper body starts and when the callable
  returns, the state becomes \<open>Completed\<close> and the completion thunk carrying exactly \<open>v\<close> is
  delivered exactly once. With the task's \<^verbatim>\<open>executeInLoop\<close> off the completion callable is
  called once, inline, with \<open>v\<close>, and nothing is queued. With it on the thunk is appended
  to the queue once and the callable is not called yet: an \<^verbatim>\<open>update()\<close> that takes the lock
  while the process-wide \<^verbatim>\<open>executeCallbacksInLoop\<close> is on calls it once with \<open>v\<close>, after the
  thunks queued before it, and leaves the queue empty; while that flag is off \<^verbatim>\<open>update()\<close>
  changes nothing and the callable is not called.
\<close>

theorem result_delivered_once:
  assumes "\<not> isCancelled (heap w h)" and "\<not> isCancelled (heap (call_func h during w) h)"
  shows "state (heap (executeTask (Returned v) callback h cfg during now w) h) = Completed
       \<and> (\<not> executeInLoop cfg \<longrightarrow>
            trace (executeTask (Returned v) callback h cfg during now w)
              = trace w @ [FuncCalled h, CallbackCalled callback v]
          \<and> callbackQueue (executeTask (Returned v) callback h cfg during now w) = callbackQueue w)
       \<and> (executeInLoop cfg \<longrightarrow>
            trace (executeTask (Returned v) callback h cfg during now w) = trace w @ [FuncCalled h]
          \<and> callbackQueue (executeTask (Returned v) callback h cfg during now w)
              = callbackQueue w @ [ResultCallbackWrapper callback v])
       \<and> (executeInLoop cfg \<and> executeCallbacksInLoop (globalConfig w) \<longrightarrow>
            trace (Async_update False [] (executeTask (Returned v) callback h cfg during now w))
              = trace w @ [FuncCalled h] @ map call_thunk (callbackQueue w) @ [CallbackCalled callback v]
          \<and> callbackQueue (Async_update False []
               (executeTask (Returned v) callback h cfg during now w)) = [])
       \<and> (\<not> executeCallbacksInLoop (globalConfig w) \<longrightarrow>
            Async_update busy arrivals (executeTask (Returned v) callback h cfg during now w)
              = executeTask (Returned v) callback h cfg during now w)"
proof -
  let ?w' = "executeTask (Returned v) callback h cfg during now w"
  have eq: "?w' = deliver cfg (ResultCallbackWrapper callback v)
             (on_handle h (setState now Completed) (call_func h during w))"
    using assms by (rule executeTask_returns)
  have st: "state (heap ?w' h) = Completed"
    by (simp add: eq setState_def)
  have g: "globalConfig ?w' = globalConfig w"
    by (simp add: eq)
  have inl: "\<not> executeInLoop cfg \<Longrightarrow>
      trace ?w' = trace w @ [FuncCalled h, CallbackCalled callback v]
      \<and> callbackQueue ?w' = callbackQueue w"
    by (simp add: eq deliver_inline)
  have que: "executeInLoop cfg \<Longrightarrow>
      trace ?w' = trace w @ [FuncCalled h]
      \<and> callbackQueue ?w' = callbackQueue w @ [ResultCallbackWrapper callback v]"
    by (simp add: eq deliver_queued)
  have drained: "executeInLoop cfg \<Longrightarrow> executeCallbacksInLoop (globalConfig w) \<Longrightarrow>
      trace (Async_update False [] ?w')
        = trace w @ [FuncCalled h] @ map call_thunk (callbackQueue w) @ [CallbackCalled callback v]
      \<and> callbackQueue (Async_update False [] ?w') = []"
    using Async_update_on [of ?w'] que by (simp add: g)
  have off: "\<not> executeCallbacksInLoop (globalConfig w) \<Longrightarrow> Async_update busy arrivals ?w' = ?w'"
    by (rule Async_update_off) (simp add: g)
  from st inl que drained off show ?thesis by blast
qed

theorem result_delivered_once_witness:
  "state (heap (executeTask (Returned 42) 0 3 (TaskConfig_init esp32_NO_AFFINITY) [] 20
      (world_init esp32_NO_AFFINITY :: (nat, nat) world)) 3) = Completed
   \<and> callbackQueue (executeTask (Returned 42) 0 3 (TaskConfig_init esp32_NO_AFFINITY) [] 20
      (world_init esp32_NO_AFFINITY :: (nat, nat) world)) = [ResultCallbackWrapper 0 42]
   \<and> trace (Async_update False [] (executeTask (Returned 42) 0 3
      (TaskConfig_init esp32_NO_AFFINITY) [] 20 (world_init esp32_NO_AFFINITY :: (nat, nat) world)))
      = [FuncCalled 3, CallbackCalled 0 42]
   \<and> trace (executeTask (Returned 42) 0 3
      ((TaskConfig_init esp32_NO_AFFINITY)\<lparr>executeInLoop := False\<rparr>) [] 20 sample_world)
      = [FuncCalled 3, CallbackCalled 0 42]
   \<and> callbackQueue (executeTask (Returned 42) 0 3
      ((TaskConfig_init esp32_NO_AFFINITY)\<lparr>executeInLoop := False\<rparr>) [] 20 sample_world) = []"
proof -
  let ?w = "world_init esp32_NO_AFFINITY :: (nat, nat) world"
  have a: "\<not> isCancelled (heap ?w 3)" by simp
  have b: "\<not> isCancelled (heap (call_func 3 [] ?w) 3)" by (simp add: call_func_undisturbed)
  have c: "\<not> isCancelled (heap sample_world 3)" by simp
  have d: "\<not> isCancelled (heap (call_func 3 [] sample_world) 3)"
    by (simp add: call_func_undisturbed)
  have on: "executeInLoop (TaskConfig_init esp32_NO_AFFINITY)"
    "executeCallbacksInLoop (globalConfig ?w)"
    by (simp_all add: TaskConfig_init_def AsyncConfig_init_def)
  have off: "\<not> executeInLoop ((TaskConfig_init esp32_NO_AFFINITY)\<lparr>executeInLoop := False\<rparr>)"
    by simp
  note queued = result_delivered_once [OF a b, of 42 0 "TaskConfig_init esp32_NO_AFFINITY" 20]
  note inline = result_delivered_once [OF c d, of 42 0
      "(TaskConfig_init esp32_NO_AFFINITY)\<lparr>executeInLoop := False\<rparr>" 20]
  from queued on inline off show ?thesis by simp
qed

text \<open>
  C5: when the cancellation flag is set at the moment the wrapper body checks it, before it
  would call the work callable, the body ends there. The work callable is not called (none
  of its effects happen), the completion callable is neither queued nor called, and no
  \<^verbatim>\<open>TaskHandle\<close> changes: the world is the one before, for both overloads of
  \<^verbatim>\<open>executeTask\<close>, and the wrapper of such a context only ends its context.
\<close>

theorem cancelled_before_work_runs_nothing:
  assumes "isCancelled (heap w h)"
  shows "executeTask_void vfunc callback h cfg during now w = w
       \<and> executeTask func callback h cfg during now w = w
       \<and> call_taskFunc (TaskFunc f callback h cfg) during now w = w
       \<and> (contexts w k = Some (TaskFunc f callback h cfg) \<longrightarrow>
            trace (wrapper k during now w) = trace w
          \<and> callbackQueue (wrapper k during now w) = callbackQueue w
          \<and> heap (wrapper k during now w) = heap w)"
  using assms by (cases f) (simp_all add: executeTask_void_def executeTask_def wrapper_def)

text \<open>
  The theorem at a task that was cancelled while \<open>Pending\<close> and then launched as the context
  1: the wrapper calls nothing and queues nothing.
\<close>

theorem cancelled_before_work_runs_nothing_witness:
  "isCancelled (heap (on_handle 3 (setHandle 10 (Some 1)) (created 1
       (TaskFunc (ResultFunc (Returned 42)) 0 3 (TaskConfig_init esp32_NO_AFFINITY))
       (apply_handle_op 3 (DoCancel 5) (world_init esp32_NO_AFFINITY :: (nat, nat) world)))) 3)
   \<and> trace (wrapper 1 [] 20 (on_handle 3 (setHandle 10 (Some 1)) (created 1
       (TaskFunc (ResultFunc (Returned 42)) 0 3 (TaskConfig_init esp32_NO_AFFINITY))
       (apply_handle_op 3 (DoCancel 5) (world_init esp32_NO_AFFINITY :: (nat, nat) world))))) = []
   \<and> callbackQueue (wrapper 1 [] 20 (on_handle 3 (setHandle 10 (Some 1)) (created 1
       (TaskFunc (ResultFunc (Returned 42)) 0 3 (TaskConfig_init esp32_NO_AFFINITY))
       (apply_handle_op 3 (DoCancel 5) (world_init esp32_NO_AFFINITY :: (nat, nat) world))))) = []"
proof -
  let ?w = "on_handle 3 (setHandle 10 (Some 1)) (created 1
       (TaskFunc (ResultFunc (Returned 42)) 0 3 (TaskConfig_init esp32_NO_AFFINITY))
       (apply_handle_op 3 (DoCancel 5) (world_init esp32_NO_AFFINITY :: (nat, nat) world)))"
  have c: "isCancelled (heap ?w 3)"
    by (simp add: created_def isCancelled_def setHandle_def cancel_def TaskHandle_init_def)
  have k: "contexts ?w 1 = Some (TaskFunc (ResultFunc (Returned 42)) 0 3 (TaskConfig_init esp32_NO_AFFINITY))"
    by (simp add: created_def)
  have t: "trace ?w = []" "callbackQueue ?w = []"
    by (simp_all add: created_def)
  from cancelled_before_work_runs_nothing [OF c, of _ 0 "TaskConfig_init esp32_NO_AFFINITY" "[]" 20 _
      "ResultFunc (Returned 42)" 1] k c t
  show ?thesis by simp
qed

text \<open>
  C8: when the work callable raises, the task's state becomes \<open>Failed\<close> (with the end time
  stamped), and the completion callable is neither queued nor called: the queue is the one
  before and the trace gains the call of the work callable only. No other \<^verbatim>\<open>TaskHandle\<close>
  changes, and nothing about the error reaches the queue or a callable. Both overloads.
\<close>

theorem work_raises_fails:
  assumes "\<not> isCancelled (heap w h)"
  shows "state (heap (executeTask Raised callback h cfg during now w) h) = Failed
       \<and> endTime (heap (executeTask Raised callback h cfg during now w) h) = now
       \<and> trace (executeTask Raised callback h cfg during now w) = trace w @ [FuncCalled h]
       \<and> callbackQueue (executeTask Raised callback h cfg during now w) = callbackQueue w
       \<and> (\<forall>b. b \<noteq> h \<longrightarrow> heap (executeTask Raised callback h cfg during now w) b = heap w b)
       \<and> state (heap (executeTask_void Raised callback h cfg during now w) h) = Failed
       \<and> endTime (heap (executeTask_void Raised callback h cfg during now w) h) = now
       \<and> trace (executeTask_void Raised callback h cfg during now w) = trace w @ [FuncCalled h]
       \<and> callbackQueue (executeTask_void Raised callback h cfg during now w) = callbackQueue w
       \<and> (\<forall>b. b \<noteq> h \<longrightarrow> heap (executeTask_void Raised callback h cfg during now w) b = heap w b)"
  using assms by (simp add: executeTask_void_def executeTask_def setState_def)

theorem work_raises_fails_witness:
  "state (heap (executeTask Raised 0 3 (TaskConfig_init esp32_NO_AFFINITY) [] 20
      (world_init esp32_NO_AFFINITY :: (nat, nat) world)) 3) = Failed
   \<and> trace (executeTask Raised 0 3 (TaskConfig_init esp32_NO_AFFINITY) [] 20
      (world_init esp32_NO_AFFINITY :: (nat, nat) world)) = [FuncCalled 3]
   \<and> callbackQueue (executeTask Raised 0 3 (TaskConfig_init esp32_NO_AFFINITY) [] 20
      (world_init esp32_NO_AFFINITY :: (nat, nat) world)) = []
   \<and> heap (executeTask Raised 0 3 (TaskConfig_init esp32_NO_AFFINITY) [] 20
      (world_init esp32_NO_AFFINITY :: (nat, nat) world)) 4 = TaskHandle_init
   \<and> state (heap (executeTask_void Raised 0 3 (TaskConfig_init esp32_NO_AFFINITY) [] 20
      (world_init esp32_NO_AFFINITY :: (nat, nat) world)) 3) = Failed"
proof -
  have a: "\<not> isCancelled (heap (world_init esp32_NO_AFFINITY :: (nat, nat) world) 3)"
    by simp
  have b: "(4::nat) \<noteq> 3"
    by simp
  from work_raises_fails [OF a, of 0 "TaskConfig_init esp32_NO_AFFINITY" "[]" 20] b
  show ?thesis by simp
qed

subsection \<open>run()\<close>

lemma run_unbound: "taskFunc t = None \<Longrightarrow> run tsk launcher now t w = Some (False, t, w)"
  by (simp add: run_def)

lemma counted_fields [simp]:
  "heap (counted t w) = heap w" "callbackQueue (counted t w) = callbackQueue w"
  "globalConfig (counted t w) = globalConfig w" "contexts (counted t w) = contexts w"
  "trace (counted t w) = trace w"
  by (simp_all add: counted_def)

lemma created_fields [simp]:
  "heap (created k f w) = heap w" "callbackQueue (created k f w) = callbackQueue w"
  "globalConfig (created k f w) = globalConfig w" "trace (created k f w) = trace w"
  "contexts (created k f w) k = Some f" "j \<noteq> k \<Longrightarrow> contexts (created k f w) j = contexts w j"
  by (simp_all add: created_def)

lemma run_launch_failed:
  "taskFunc t = Some f \<Longrightarrow> handle t = Some a \<Longrightarrow> launcher (request_of tsk t w) = None \<Longrightarrow>
   run tsk launcher now t w = Some (False, named t w, on_handle a (setState now Failed) (counted t w))"
  by (simp add: run_def request_of_def named_def counted_def Let_def)

lemma run_launched:
  "taskFunc t = Some f \<Longrightarrow> handle t = Some a \<Longrightarrow> launcher (request_of tsk t w) = Some k \<Longrightarrow>
   run tsk launcher now t w =
     Some (True, named t w, on_handle a (setHandle now (Some k)) (created k f (counted t w)))"
  by (simp add: run_def request_of_def named_def counted_def Let_def)

lemma run_null_handle:
  "taskFunc t = Some f \<Longrightarrow> handle t = None \<Longrightarrow> run tsk launcher now t w = None"
  by (simp add: run_def Let_def split: option.split)

text \<open>
  C2, as the claim states it, fails for a task with no work callable bound, such as the
  default-constructed tasks of the sample application before they are assigned: \<^verbatim>\<open>run()\<close>
  returns \<^verbatim>\<open>false\<close> and the state is still \<open>Pending\<close>, not \<open>Failed\<close>.
\<close>

theorem run_unbound_stays_pending_counterexample:
  "run esp32_NO_AFFINITY launcher_ok 10 (fst (Task_init esp32_NO_AFFINITY 3 sample_world))
      (snd (Task_init esp32_NO_AFFINITY 3 sample_world))
     = Some (False, fst (Task_init esp32_NO_AFFINITY 3 sample_world),
         snd (Task_init esp32_NO_AFFINITY 3 sample_world))
   \<and> Task_getState (fst (Task_init esp32_NO_AFFINITY 3 sample_world))
        (snd (Task_init esp32_NO_AFFINITY 3 sample_world)) = Pending"
  by (simp add: run_def Task_init_def Task_getState_def getState_def TaskHandle_init_def)

text \<open>
  C2, amended: whenever \<^verbatim>\<open>run()\<close> returns \<^verbatim>\<open>false\<close>, no execution context was created, nothing
  was queued and no callable was called, so this call delivers no completion callback. When
  the failure is the Launcher's (a work callable is bound), the request to the Launcher
  failed and the task's state was set to \<open>Failed\<close>, with the end time stamped and the
  cancellation flag as it was. When no work callable is bound, \<^verbatim>\<open>run()\<close> returns \<^verbatim>\<open>false\<close> and
  changes nothing: the state stays what it was.
\<close>

theorem run_failure:
  "(taskFunc t = None \<longrightarrow> run tsk launcher now t w = Some (False, t, w))
   \<and> (run tsk launcher now t w = Some (False, t', w') \<longrightarrow>
        contexts w' = contexts w \<and> callbackQueue w' = callbackQueue w \<and> trace w' = trace w
        \<and> (\<forall>a. handle t = Some a \<and> taskFunc t \<noteq> None \<longrightarrow>
              launcher (request_of tsk t w) = None
              \<and> state (heap w' a) = Failed \<and> endTime (heap w' a) = now
              \<and> cancelled (heap w' a) = cancelled (heap w a)))"
proof -
  have 1: "taskFunc t = None \<longrightarrow> run tsk launcher now t w = Some (False, t, w)"
    by (simp add: run_unbound)
  have 2: "contexts w' = contexts w \<and> callbackQueue w' = callbackQueue w \<and> trace w' = trace w
        \<and> (\<forall>a. handle t = Some a \<and> taskFunc t \<noteq> None \<longrightarrow>
              launcher (request_of tsk t w) = None
              \<and> state (heap w' a) = Failed \<and> endTime (heap w' a) = now
              \<and> cancelled (heap w' a) = cancelled (heap w a))"
    if r: "run tsk launcher now t w = Some (False, t', w')"
  proof (cases "taskFunc t")
    case None
    with r show ?thesis by (simp add: run_unbound)
  next
    case (Some f)
    note bound = this
    show ?thesis
    proof (cases "handle t")
      case None
      with bound r show ?thesis by (simp add: run_null_handle)
    next
      case (Some a)
      note h = this
      show ?thesis
      proof (cases "launcher (request_of tsk t w)")
        case None
        have "run tsk launcher now t w
            = Some (False, named t w, on_handle a (setState now Failed) (counted t w))"
          using bound h None by (rule run_launch_failed)
        with r have "w' = on_handle a (setState now Failed) (counted t w)" by simp
        with None h show ?thesis by (simp add: setState_def)
      next
        case (Some k)
        have "run tsk launcher now t w
            = Some (True, named t w, on_handle a (setHandle now (Some k)) (created k f (counted t w)))"
          using bound h Some by (rule run_launched)
        with r show ?thesis by simp
      qed
    qed
  qed
  from 1 2 show ?thesis by blast
qed

text \<open>
  The theorem at a default-constructed task, and at a bound task whose Launcher fails at
  time 10.
\<close>

theorem run_failure_witness:
  "run esp32_NO_AFFINITY launcher_fails 10 (fst (Task_init esp32_NO_AFFINITY 3 sample_world))
      (snd (Task_init esp32_NO_AFFINITY 3 sample_world))
     = Some (False, fst (Task_init esp32_NO_AFFINITY 3 sample_world),
         snd (Task_init esp32_NO_AFFINITY 3 sample_world))
   \<and> run esp32_NO_AFFINITY launcher_fails 10
        (fst (Task_bind (ResultFunc (Returned 42)) 0 (TaskConfig_init esp32_NO_AFFINITY) 3 sample_world))
        (snd (Task_bind (ResultFunc (Returned 42)) 0 (TaskConfig_init esp32_NO_AFFINITY) 3 sample_world))
     = Some (False,
         named (fst (Task_bind (ResultFunc (Returned 42)) 0 (TaskConfig_init esp32_NO_AFFINITY) 3 sample_world))
           (snd (Task_bind (ResultFunc (Returned 42)) 0 (TaskConfig_init esp32_NO_AFFINITY) 3 sample_world)),
         on_handle 3 (setState 10 Failed)
           (counted (fst (Task_bind (ResultFunc (Returned 42)) 0 (TaskConfig_init esp32_NO_AFFINITY) 3 sample_world))
             (snd (Task_bind (ResultFunc (Returned 42)) 0 (TaskConfig_init esp32_NO_AFFINITY) 3 sample_world))))
   \<and> state (heap (on_handle 3 (setState 10 Failed)
           (counted (fst (Task_bind (ResultFunc (Returned 42)) 0 (TaskConfig_init esp32_NO_AFFINITY) 3 sample_world))
             (snd (Task_bind (ResultFunc (Returned 42)) 0 (TaskConfig_init esp32_NO_AFFINITY) 3 sample_world)))) 3)
       = Failed
   \<and> trace (on_handle 3 (setState 10 Failed)
           (counted (fst (Task_bind (ResultFunc (Returned 42)) 0 (TaskConfig_init esp32_NO_AFFINITY) 3 sample_world))
             (snd (Task_bind (ResultFunc (Returned 42)) 0 (TaskConfig_init esp32_NO_AFFINITY) 3 sample_world))))
       = []"
proof -
  define t0 :: "(nat, nat) Task" where "t0 = fst (Task_init esp32_NO_AFFINITY 3 sample_world)"
  define w0 :: "(nat, nat) world" where "w0 = snd (Task_init esp32_NO_AFFINITY 3 sample_world)"
  define t :: "(nat, nat) Task" where
    "t = fst (Task_bind (ResultFunc (Returned 42)) 0 (TaskConfig_init esp32_NO_AFFINITY) 3 sample_world)"
  define w :: "(nat, nat) world" where
    "w = snd (Task_bind (ResultFunc (Returned 42)) 0 (TaskConfig_init esp32_NO_AFFINITY) 3 sample_world)"
  have unbound: "taskFunc t0 = None"
    by (simp add: t0_def Task_init_def)
  have bound: "taskFunc t = Some (TaskFunc (ResultFunc (Returned 42)) 0 3 (TaskConfig_init esp32_NO_AFFINITY))"
    and h: "handle t = Some 3"
    by (simp_all add: t_def Task_bind_def)
  have l: "launcher_fails (request_of esp32_NO_AFFINITY t w) = None"
    by (simp add: launcher_fails_def)
  have r: "run esp32_NO_AFFINITY launcher_fails 10 t w
      = Some (False, named t w, on_handle 3 (setState 10 Failed) (counted t w))"
    using bound h l by (rule run_launch_failed)
  have tr: "trace w = []"
    by (simp add: w_def Task_bind_def)
  note first = run_failure [of t0 esp32_NO_AFFINITY launcher_fails 10 w0]
  note second = run_failure [of t esp32_NO_AFFINITY launcher_fails 10 w "named t w"
      "on_handle 3 (setState 10 Failed) (counted t w)"]
  from first unbound have a: "run esp32_NO_AFFINITY launcher_fails 10 t0 w0 = Some (False, t0, w0)"
    by blast
  from second r bound h have b: "state (heap (on_handle 3 (setState 10 Failed) (counted t w)) 3) = Failed"
    and c: "trace (on_handle 3 (setState 10 Failed) (counted t w)) = trace w"
    by auto
  show ?thesis
    unfolding t0_def [symmetric] w0_def [symmetric] t_def [symmetric] w_def [symmetric]
    using a r b c tr by simp
qed

subsection \<open>Order of delivery\<close>

text \<open>
  C6: the queue keeps the order of submission. When \<open>c1\<close> is enqueued, then the thunks
  \<open>between\<close>, then \<open>c2\<close>, a drain that takes the lock calls \<open>c1\<close> before \<open>c2\<close>: it calls the
  thunks that were queued, in their order, followed by thunks that arrived while it ran. A
  drain that takes the lock calls every thunk queued before it and leaves the queue empty,
  so holding no thunk but those enqueued during the drain. A drain that finds the lock
  taken calls nothing and leaves the queue as it is.
\<close>

theorem callbackQueue_fifo:
  "(\<exists>n. process False arrivals (enqueue c2 (fold enqueue between (enqueue c1 q)))
          = ([], q @ [c1] @ between @ [c2] @ concat (take n arrivals)))
   \<and> (\<exists>n. process False arrivals q = ([], q @ concat (take n arrivals)))
   \<and> set (fst (process False arrivals q)) \<subseteq> set (concat arrivals)
   \<and> process True arrivals q = (q, [])"
proof -
  have f: "fold enqueue xs q' = q' @ xs" for xs and q' :: "'a list"
    by (induction xs arbitrary: q') simp_all
  obtain n where n: "process False arrivals q = ([], q @ concat (take n arrivals))"
    using process_free by blast
  obtain m where m: "process False arrivals (q @ [c1] @ between @ [c2])
      = ([], (q @ [c1] @ between @ [c2]) @ concat (take m arrivals))"
    using process_free by blast
  have "\<exists>n. process False arrivals (enqueue c2 (fold enqueue between (enqueue c1 q)))
          = ([], q @ [c1] @ between @ [c2] @ concat (take n arrivals))"
    using m by (intro exI [of _ m]) (simp add: f)
  moreover have "\<exists>n. process False arrivals q = ([], q @ concat (take n arrivals))"
    by (rule process_free)
  moreover have "set (fst (process False arrivals q)) \<subseteq> set (concat arrivals)"
    by (simp add: n)
  moreover have "process True arrivals q = (q, [])"
    by (rule process_busy)
  ultimately show ?thesis by blast
qed

subsection \<open>Effective configuration\<close>

lemma launcher_request_resolved:
  "launcher_request tskNO_AFFINITY nm cfg g =
     (if (if core cfg = tskNO_AFFINITY then defaultCore g else core cfg) = tskNO_AFFINITY
      then xTaskCreate nm
             (if stackSize cfg = 0 then defaultStackSize g else stackSize cfg)
             (if priority cfg = 0 then defaultPriority g else priority cfg)
      else xTaskCreatePinnedToCore nm
             (if stackSize cfg = 0 then defaultStackSize g else stackSize cfg)
             (if priority cfg = 0 then defaultPriority g else priority cfg)
             (if core cfg = tskNO_AFFINITY then defaultCore g else core cfg))"
  by (simp add: effective_stackSize_def effective_priority_def effective_core_def
      launcher_request_def word_neq_0_conv)

lemma request_of_resolved:
  "request_of tskNO_AFFINITY t w =
     launcher_request tskNO_AFFINITY (effective_name (config t) (taskCounter w)) (config t)
       (globalConfig w)"
  by (simp add: request_of_def launcher_request_def effective_stackSize_def
      effective_priority_def effective_core_def)

text \<open>
  C7: a stack size or priority of 0, or a core equal to \<^verbatim>\<open>tskNO_AFFINITY\<close>, is replaced by the
  process-wide default; any other value is used as it is, each field on its own. The request
  \<^verbatim>\<open>run()\<close> makes to the Launcher holds exactly these three resolved values, whichever fields
  are set (a resolved core of \<^verbatim>\<open>tskNO_AFFINITY\<close> is the unpinned \<^verbatim>\<open>xTaskCreate\<close>). And \<^verbatim>\<open>run()\<close> on
  a bound task does make that request: when the Launcher answers it with a context, \<^verbatim>\<open>run()\<close>
  returns \<^verbatim>\<open>true\<close> with that context created and recorded; when the Launcher refuses it,
  \<^verbatim>\<open>run()\<close> returns \<^verbatim>\<open>false\<close> with the state \<open>Failed\<close>.
\<close>

theorem effective_configuration:
  "(stackSize cfg = 0 \<longrightarrow> effective_stackSize cfg g = defaultStackSize g)
   \<and> (stackSize cfg \<noteq> 0 \<longrightarrow> effective_stackSize cfg g = stackSize cfg)
   \<and> (priority cfg = 0 \<longrightarrow> effective_priority cfg g = defaultPriority g)
   \<and> (priority cfg \<noteq> 0 \<longrightarrow> effective_priority cfg g = priority cfg)
   \<and> (core cfg = tskNO_AFFINITY \<longrightarrow> effective_core tskNO_AFFINITY cfg g = defaultCore g)
   \<and> (core cfg \<noteq> tskNO_AFFINITY \<longrightarrow> effective_core tskNO_AFFINITY cfg g = core cfg)
   \<and> launcher_request tskNO_AFFINITY nm cfg g =
       (if (if core cfg = tskNO_AFFINITY then defaultCore g else core cfg) = tskNO_AFFINITY
        then xTaskCreate nm
               (if stackSize cfg = 0 then defaultStackSize g else stackSize cfg)
               (if priority cfg = 0 then defaultPriority g else priority cfg)
        else xTaskCreatePinnedToCore nm
               (if stackSize cfg = 0 then defaultStackSize g else stackSize cfg)
               (if priority cfg = 0 then defaultPriority g else priority cfg)
               (if core cfg = tskNO_AFFINITY then defaultCore g else core cfg))
   \<and> (taskFunc (t :: ('cb, 'r) Task) = Some f \<and> handle t = Some a \<longrightarrow>
        (launcher (launcher_request tskNO_AFFINITY (effective_name (config t) (taskCounter w))
             (config t) (globalConfig w)) = Some k \<longrightarrow>
           run tskNO_AFFINITY launcher now t w =
             Some (True, named t w,
               on_handle a (setHandle now (Some k)) (created k f (counted t w))))
      \<and> (launcher (launcher_request tskNO_AFFINITY (effective_name (config t) (taskCounter w))
             (config t) (globalConfig w)) = None \<longrightarrow>
           run tskNO_AFFINITY launcher now t w =
             Some (False, named t w, on_handle a (setState now Failed) (counted t w))))"
proof -
  have fields: "(stackSize cfg = 0 \<longrightarrow> effective_stackSize cfg g = defaultStackSize g)
   \<and> (stackSize cfg \<noteq> 0 \<longrightarrow> effective_stackSize cfg g = stackSize cfg)
   \<and> (priority cfg = 0 \<longrightarrow> effective_priority cfg g = defaultPriority g)
   \<and> (priority cfg \<noteq> 0 \<longrightarrow> effective_priority cfg g = priority cfg)
   \<and> (core cfg = tskNO_AFFINITY \<longrightarrow> effective_core tskNO_AFFINITY cfg g = defaultCore g)
   \<and> (core cfg \<noteq> tskNO_AFFINITY \<longrightarrow> effective_core tskNO_AFFINITY cfg g = core cfg)"
    by (simp add: effective_stackSize_def effective_priority_def effective_core_def
        word_neq_0_conv)
  have launched: "run tskNO_AFFINITY launcher now t w =
             Some (True, named t w,
               on_handle a (setHandle now (Some k)) (created k f (counted t w)))"
    if "taskFunc t = Some f" and "handle t = Some a"
      and "launcher (launcher_request tskNO_AFFINITY (effective_name (config t) (taskCounter w))
             (config t) (globalConfig w)) = Some k"
    using that(1,2) by (rule run_launched) (simp add: request_of_resolved that(3))
  have refused: "run tskNO_AFFINITY launcher now t w =
             Some (False, named t w, on_handle a (setState now Failed) (counted t w))"
    if "taskFunc t = Some f" and "handle t = Some a"
      and "launcher (launcher_request tskNO_AFFINITY (effective_name (config t) (taskCounter w))
             (config t) (globalConfig w)) = None"
    using that(1,2) by (rule run_launch_failed) (simp add: request_of_resolved that(3))
  from fields launcher_request_resolved [of tskNO_AFFINITY nm cfg g] launched refused
  show ?thesis by blast
qed

text \<open>
  The theorem at the empty \<^verbatim>\<open>TaskConfig\<close> under the default process-wide configuration, at the
  two sample configurations under the configuration of \<^verbatim>\<open>setup()\<close>, and at
  \<^verbatim>\<open>RunWithPriority(5, ...)\<close> there. Each Launcher answers the one request written out and no
  other, so \<^verbatim>\<open>run()\<close> returning \<^verbatim>\<open>true\<close> shows which request it made.
\<close>

theorem effective_configuration_witness:
  "effective_stackSize (TaskConfig_init esp32_NO_AFFINITY) (AsyncConfig_init esp32_NO_AFFINITY) = 4096
   \<and> effective_priority (TaskConfig_init esp32_NO_AFFINITY) (AsyncConfig_init esp32_NO_AFFINITY) = 1
   \<and> effective_core esp32_NO_AFFINITY (TaskConfig_init esp32_NO_AFFINITY)
        (AsyncConfig_init esp32_NO_AFFINITY) = esp32_NO_AFFINITY
   \<and> effective_stackSize endless_cfg sample_config = 2048
   \<and> effective_priority endless_cfg sample_config = 1
   \<and> effective_core esp32_NO_AFFINITY endless_cfg sample_config = 1
   \<and> launcher_request esp32_NO_AFFINITY (Literal ''EndlessTask'') endless_cfg sample_config
       = xTaskCreatePinnedToCore (Literal ''EndlessTask'') 2048 1 1
   \<and> run esp32_NO_AFFINITY
        (launcher_expecting (xTaskCreate (TaskNameBuffer ''Task_0'') 4096 1)) 10
        (fst default_task) (snd default_task)
       = Some (True, named (fst default_task) (snd default_task),
           on_handle 3 (setHandle 10 (Some 1))
             (created 1 (TaskFunc (VoidFunc (Returned ())) 0 3 (TaskConfig_init esp32_NO_AFFINITY))
               (counted (fst default_task) (snd default_task))))
   \<and> run esp32_NO_AFFINITY
        (launcher_expecting (xTaskCreatePinnedToCore (Literal ''UpdateTask'') 8192 2 1)) 10
        (fst update_task) (snd update_task)
       = Some (True, named (fst update_task) (snd update_task),
           on_handle 3 (setHandle 10 (Some 1))
             (created 1 (TaskFunc (VoidFunc (Returned ())) 0 3 update_cfg)
               (counted (fst update_task) (snd update_task))))
   \<and> run esp32_NO_AFFINITY launcher_fails 10 (fst update_task) (snd update_task)
       = Some (False, named (fst update_task) (snd update_task),
           on_handle 3 (setState 10 Failed) (counted (fst update_task) (snd update_task)))
   \<and> Async_RunWithPriority esp32_NO_AFFINITY
        (launcher_expecting (xTaskCreatePinnedToCore (TaskNameBuffer ''Task_0'') 8192 5 0)) 10 5
        (VoidFunc (Returned ())) (0::nat) 3 sample_world
       = Some (named (fst (Task_bind (VoidFunc (Returned ())) 0
                  ((TaskConfig_init esp32_NO_AFFINITY)\<lparr>priority := 5\<rparr>) 3 sample_world))
                (snd (Task_bind (VoidFunc (Returned ())) 0
                  ((TaskConfig_init esp32_NO_AFFINITY)\<lparr>priority := 5\<rparr>) 3 sample_world)),
           on_handle 3 (setHandle 10 (Some 1))
             (created 1 (TaskFunc (VoidFunc (Returned ())) 0 3
                  ((TaskConfig_init esp32_NO_AFFINITY)\<lparr>priority := 5\<rparr>))
               (counted (fst (Task_bind (VoidFunc (Returned ())) 0
                  ((TaskConfig_init esp32_NO_AFFINITY)\<lparr>priority := 5\<rparr>) 3 sample_world))
                (snd (Task_bind (VoidFunc (Returned ())) 0
                  ((TaskConfig_init esp32_NO_AFFINITY)\<lparr>priority := 5\<rparr>) 3 sample_world)))))"
proof -
  let ?n = esp32_NO_AFFINITY
  let ?empty = "TaskConfig_init ?n"
  let ?prio = "?empty\<lparr>priority := 5\<rparr>"
  define bp :: "(nat, nat) Task \<times> (nat, nat) world"
    where "bp = Task_bind (VoidFunc (Returned ())) 0 ?prio 3 sample_world"
  have name0: "auto_name 0 = ''Task_0''"
    by code_simp
  have na: "?n \<noteq> 0" "?n \<noteq> 1"
    by (simp_all add: esp32_NO_AFFINITY_def)
  \<comment> \<open>the hypotheses of the field conjuncts, at the empty and at the full configuration\<close>
  have unset: "stackSize ?empty = 0" "priority ?empty = 0" "core ?empty = ?n"
    by (simp_all add: TaskConfig_init_def)
  have given: "stackSize endless_cfg \<noteq> 0" "priority endless_cfg \<noteq> 0" "core endless_cfg \<noteq> ?n"
    using na by (simp_all add: endless_cfg_def)
  \<comment> \<open>the bound tasks\<close>
  have d: "taskFunc (fst default_task) = Some (TaskFunc (VoidFunc (Returned ())) 0 3 ?empty)"
    "handle (fst default_task) = Some 3"
    by (simp_all add: default_task_def Task_bind_def)
  have u: "taskFunc (fst update_task) = Some (TaskFunc (VoidFunc (Returned ())) 0 3 update_cfg)"
    "handle (fst update_task) = Some 3"
    by (simp_all add: update_task_def Task_bind_def)
  have p: "taskFunc (fst bp) = Some (TaskFunc (VoidFunc (Returned ())) 0 3 ?prio)"
    "handle (fst bp) = Some 3"
    by (simp_all add: bp_def Task_bind_def)
  \<comment> \<open>the answers of the Launchers to the requests made\<close>
  have dl: "launcher_expecting (xTaskCreate (TaskNameBuffer ''Task_0'') 4096 1)
      (launcher_request ?n (effective_name (config (fst default_task)) (taskCounter (snd default_task)))
        (config (fst default_task)) (globalConfig (snd default_task))) = Some 1"
    by (simp add: default_task_def Task_bind_def launcher_request_resolved effective_name_def
        name0 TaskConfig_init_def AsyncConfig_init_def launcher_expecting_def)
  have ul: "launcher_expecting (xTaskCreatePinnedToCore (Literal ''UpdateTask'') 8192 2 1)
      (launcher_request ?n (effective_name (config (fst update_task)) (taskCounter (snd update_task)))
        (config (fst update_task)) (globalConfig (snd update_task))) = Some 1"
    using na
    by (simp add: update_task_def update_cfg_def Task_bind_def launcher_request_resolved
        effective_name_def TaskConfig_init_def sample_config_def launcher_expecting_def)
  have uf: "launcher_fails
      (launcher_request ?n (effective_name (config (fst update_task)) (taskCounter (snd update_task)))
        (config (fst update_task)) (globalConfig (snd update_task))) = None"
    by (simp add: launcher_fails_def)
  have pl: "launcher_expecting (xTaskCreatePinnedToCore (TaskNameBuffer ''Task_0'') 8192 5 0)
      (launcher_request ?n (effective_name (config (fst bp)) (taskCounter (snd bp)))
        (config (fst bp)) (globalConfig (snd bp))) = Some 1"
    using na
    by (simp add: bp_def Task_bind_def launcher_request_resolved effective_name_def name0
        TaskConfig_init_def sample_config_def launcher_expecting_def sample_world_def
        Async_setConfig_def world_init_def)
  note at_empty = effective_configuration [where cfg = ?empty and g = "AsyncConfig_init ?n"
      and tskNO_AFFINITY = ?n and t = "fst default_task" and w = "snd default_task"
      and launcher = "launcher_expecting (xTaskCreate (TaskNameBuffer ''Task_0'') 4096 1)"
      and k = 1 and a = 3 and now = 10
      and f = "TaskFunc (VoidFunc (Returned ())) 0 3 ?empty"]
  note at_full = effective_configuration [where cfg = endless_cfg and g = sample_config
      and tskNO_AFFINITY = ?n and nm = "Literal ''EndlessTask''"
      and t = "fst update_task" and w = "snd update_task"
      and launcher = "launcher_expecting (xTaskCreatePinnedToCore (Literal ''UpdateTask'') 8192 2 1)"
      and k = 1 and a = 3 and now = 10
      and f = "TaskFunc (VoidFunc (Returned ())) 0 3 update_cfg"]
  note refused = effective_configuration [where tskNO_AFFINITY = ?n
      and t = "fst update_task" and w = "snd update_task" and launcher = launcher_fails
      and a = 3 and now = 10 and f = "TaskFunc (VoidFunc (Returned ())) 0 3 update_cfg"]
  note with_priority = effective_configuration [where tskNO_AFFINITY = ?n
      and t = "fst bp" and w = "snd bp"
      and launcher = "launcher_expecting (xTaskCreatePinnedToCore (TaskNameBuffer ''Task_0'') 8192 5 0)"
      and k = 1 and a = 3 and now = 10 and f = "TaskFunc (VoidFunc (Returned ())) 0 3 ?prio"]
  from at_empty unset have 1: "effective_stackSize ?empty (AsyncConfig_init ?n)
        = defaultStackSize (AsyncConfig_init ?n)"
    and 2: "effective_priority ?empty (AsyncConfig_init ?n) = defaultPriority (AsyncConfig_init ?n)"
    and 3: "effective_core ?n ?empty (AsyncConfig_init ?n) = defaultCore (AsyncConfig_init ?n)"
    by blast+
  from at_full given have 4: "effective_stackSize endless_cfg sample_config = stackSize endless_cfg"
    and 5: "effective_priority endless_cfg sample_config = priority endless_cfg"
    and 6: "effective_core ?n endless_cfg sample_config = core endless_cfg"
    by blast+
  from at_full have 7: "launcher_request ?n (Literal ''EndlessTask'') endless_cfg sample_config
       = xTaskCreatePinnedToCore (Literal ''EndlessTask'') 2048 1 1"
    using na by (simp add: endless_cfg_def)
  from at_empty d dl have 8: "run ?n
        (launcher_expecting (xTaskCreate (TaskNameBuffer ''Task_0'') 4096 1)) 10
        (fst default_task) (snd default_task)
       = Some (True, named (fst default_task) (snd default_task),
           on_handle 3 (setHandle 10 (Some 1))
             (created 1 (TaskFunc (VoidFunc (Returned ())) 0 3 ?empty)
               (counted (fst default_task) (snd default_task))))"
    by blast
  from at_full u ul have 9: "run ?n
        (launcher_expecting (xTaskCreatePinnedToCore (Literal ''UpdateTask'') 8192 2 1)) 10
        (fst update_task) (snd update_task)
       = Some (True, named (fst update_task) (snd update_task),
           on_handle 3 (setHandle 10 (Some 1))
             (created 1 (TaskFunc (VoidFunc (Returned ())) 0 3 update_cfg)
               (counted (fst update_task) (snd update_task))))"
    by blast
  from refused u uf have 10: "run ?n launcher_fails 10 (fst update_task) (snd update_task)
       = Some (False, named (fst update_task) (snd update_task),
           on_handle 3 (setState 10 Failed) (counted (fst update_task) (snd update_task)))"
    by blast
  from with_priority p pl have 11: "run ?n
        (launcher_expecting (xTaskCreatePinnedToCore (TaskNameBuffer ''Task_0'') 8192 5 0)) 10
        (fst bp) (snd bp)
       = Some (True, named (fst bp) (snd bp),
           on_handle 3 (setHandle 10 (Some 1))
             (created 1 (TaskFunc (VoidFunc (Returned ())) 0 3 ?prio)
               (counted (fst bp) (snd bp))))"
    by blast
  have 12: "Async_RunWithPriority ?n
        (launcher_expecting (xTaskCreatePinnedToCore (TaskNameBuffer ''Task_0'') 8192 5 0)) 10 5
        (VoidFunc (Returned ())) (0::nat) 3 sample_world
       = Some (named (fst bp) (snd bp),
           on_handle 3 (setHandle 10 (Some 1))
             (created 1 (TaskFunc (VoidFunc (Returned ())) 0 3 ?prio)
               (counted (fst bp) (snd bp))))"
    unfolding Async_RunWithPriority_def Async_Run_def bp_def [symmetric]
    by (simp add: 11)
  have defaults: "defaultStackSize (AsyncConfig_init ?n) = 4096"
    "defaultPriority (AsyncConfig_init ?n) = 1" "defaultCore (AsyncConfig_init ?n) = ?n"
    "stackSize endless_cfg = 2048" "priority endless_cfg = 1" "core endless_cfg = 1"
    by (simp_all add: AsyncConfig_init_def endless_cfg_def)
  show ?thesis
    unfolding bp_def [symmetric]
    using 1 2 3 4 5 6 7 8 9 10 12 by (simp only: defaults)
qed

subsection \<open>Which path delivers the completion\<close>

text \<open>
  C1, as the claim states it, fails because the path is chosen by the task's own
  \<^verbatim>\<open>executeInLoop\<close>, not by the process-wide flag. In the configuration of the sample
  application the process-wide flag is off and the task's flag is on: a void task completes
  normally, its completion callable has not been called inline, its thunk is in the queue,
  and \<^verbatim>\<open>update()\<close> leaves it there.
\<close>

theorem callback_not_inline_counterexample:
  "\<not> executeCallbacksInLoop (globalConfig sample_world)
   \<and> state (heap (executeTask_void (Returned ()) 0 3 (TaskConfig_init esp32_NO_AFFINITY) [] 20
        sample_world) 3) = Completed
   \<and> VoidCallbackCalled 0 \<notin> set (trace (executeTask_void (Returned ()) 0 3
        (TaskConfig_init esp32_NO_AFFINITY) [] 20 sample_world))
   \<and> callbackQueue (Async_update False [] (executeTask_void (Returned ()) 0 3
        (TaskConfig_init esp32_NO_AFFINITY) [] 20 sample_world)) = [VoidCallbackWrapper 0]
   \<and> VoidCallbackCalled 0 \<notin> set (trace (Async_update False [] (executeTask_void (Returned ()) 0 3
        (TaskConfig_init esp32_NO_AFFINITY) [] 20 sample_world)))"
  by (simp add: sample_config_def isCancelled_def executeTask_void_def call_func_undisturbed
      deliver_def TaskConfig_init_def on_handle_def setState_def Async_update_def
      TaskHandle_init_def)

text \<open>
  C1, amended: \<^verbatim>\<open>update()\<close> drains the queue if and only if the process-wide
  \<^verbatim>\<open>executeCallbacksInLoop\<close> is set: with the flag off it changes nothing, with it on (and the
  lock free) it calls every queued thunk in order and leaves the queue empty. For a task
  completing normally exactly one of the two paths is taken, chosen by the task's own
  \<^verbatim>\<open>TaskConfig::executeInLoop\<close>: with it on the thunk is queued and the callable is not
  called by the worker, with it off the callable is called inline and nothing is queued.
  The process-wide flag plays no part in that choice.
\<close>

theorem delivery_path:
  "(\<not> executeCallbacksInLoop (globalConfig w) \<longrightarrow> Async_update busy arrivals w = w)
   \<and> (executeCallbacksInLoop (globalConfig w) \<longrightarrow>
        (\<exists>n. callbackQueue (Async_update False arrivals w) = []
            \<and> trace (Async_update False arrivals w)
                = trace w @ map call_thunk (callbackQueue w @ concat (take n arrivals))))
   \<and> (\<not> isCancelled (heap w h) \<and> \<not> isCancelled (heap (call_func h during w) h) \<longrightarrow>
        (executeInLoop cfg \<longrightarrow>
           callbackQueue (executeTask_void (Returned u) callback h cfg during now w)
             = callbackQueue w @ [VoidCallbackWrapper callback]
         \<and> trace (executeTask_void (Returned u) callback h cfg during now w)
             = trace w @ [FuncCalled h]
         \<and> callbackQueue (executeTask (Returned v) callback h cfg during now w)
             = callbackQueue w @ [ResultCallbackWrapper callback v]
         \<and> trace (executeTask (Returned v) callback h cfg during now w)
             = trace w @ [FuncCalled h])
      \<and> (\<not> executeInLoop cfg \<longrightarrow>
           callbackQueue (executeTask_void (Returned u) callback h cfg during now w)
             = callbackQueue w
         \<and> trace (executeTask_void (Returned u) callback h cfg during now w)
             = trace w @ [FuncCalled h, VoidCallbackCalled callback]
         \<and> callbackQueue (executeTask (Returned v) callback h cfg during now w)
             = callbackQueue w
         \<and> trace (executeTask (Returned v) callback h cfg during now w)
             = trace w @ [FuncCalled h, CallbackCalled callback v]))"
proof -
  have off: "\<not> executeCallbacksInLoop (globalConfig w) \<longrightarrow> Async_update busy arrivals w = w"
    by (simp add: Async_update_off)
  obtain n where n: "process False arrivals (callbackQueue w)
      = ([], callbackQueue w @ concat (take n arrivals))"
    using process_free by blast
  have on: "executeCallbacksInLoop (globalConfig w) \<longrightarrow>
        (\<exists>n. callbackQueue (Async_update False arrivals w) = []
            \<and> trace (Async_update False arrivals w)
                = trace w @ map call_thunk (callbackQueue w @ concat (take n arrivals)))"
    by (intro impI exI [of _ n]) (simp add: Async_update_def n)
  have paths: "(executeInLoop cfg \<longrightarrow>
           callbackQueue (executeTask_void (Returned u) callback h cfg during now w)
             = callbackQueue w @ [VoidCallbackWrapper callback]
         \<and> trace (executeTask_void (Returned u) callback h cfg during now w)
             = trace w @ [FuncCalled h]
         \<and> callbackQueue (executeTask (Returned v) callback h cfg during now w)
             = callbackQueue w @ [ResultCallbackWrapper callback v]
         \<and> trace (executeTask (Returned v) callback h cfg during now w)
             = trace w @ [FuncCalled h])
      \<and> (\<not> executeInLoop cfg \<longrightarrow>
           callbackQueue (executeTask_void (Returned u) callback h cfg during now w)
             = callbackQueue w
         \<and> trace (executeTask_void (Returned u) callback h cfg during now w)
             = trace w @ [FuncCalled h, VoidCallbackCalled callback]
         \<and> callbackQueue (executeTask (Returned v) callback h cfg during now w)
             = callbackQueue w
         \<and> trace (executeTask (Returned v) callback h cfg during now w)
             = trace w @ [FuncCalled h, CallbackCalled callback v])"
    if a: "\<not> isCancelled (heap w h)" and b: "\<not> isCancelled (heap (call_func h during w) h)"
    by (simp add: executeTask_returns [OF a b] executeTask_void_returns [OF a b]
        deliver_queued deliver_inline)
  from off on paths show ?thesis by blast
qed

text \<open>
  The theorem at a void task with the default \<^verbatim>\<open>TaskConfig\<close> in the default world (queued,
  then drained by \<^verbatim>\<open>update()\<close>), and at a task with \<^verbatim>\<open>executeInLoop\<close> off in the world of the
  sample application (called inline; \<^verbatim>\<open>update()\<close> does nothing).
\<close>

theorem delivery_path_witness:
  "callbackQueue (executeTask_void (Returned ()) 0 3 (TaskConfig_init esp32_NO_AFFINITY) [] 20
      (world_init esp32_NO_AFFINITY :: (nat, nat) world)) = [VoidCallbackWrapper 0]
   \<and> trace (executeTask_void (Returned ()) 0 3 (TaskConfig_init esp32_NO_AFFINITY) [] 20
      (world_init esp32_NO_AFFINITY :: (nat, nat) world)) = [FuncCalled 3]
   \<and> trace (executeTask_void (Returned ()) 0 3
      ((TaskConfig_init esp32_NO_AFFINITY)\<lparr>executeInLoop := False\<rparr>) [] 20 sample_world)
      = [FuncCalled 3, VoidCallbackCalled 0]
   \<and> callbackQueue (executeTask_void (Returned ()) 0 3
      ((TaskConfig_init esp32_NO_AFFINITY)\<lparr>executeInLoop := False\<rparr>) [] 20 sample_world) = []
   \<and> Async_update False [] sample_world = sample_world
   \<and> (\<exists>n. trace (Async_update False [[VoidCallbackWrapper 1]]
          ((world_init esp32_NO_AFFINITY :: (nat, nat) world)\<lparr>callbackQueue := [VoidCallbackWrapper 0]\<rparr>))
        = map call_thunk ([VoidCallbackWrapper 0] @ concat (take n [[VoidCallbackWrapper 1]])))"
proof -
  let ?w = "world_init esp32_NO_AFFINITY :: (nat, nat) world"
  let ?q = "?w\<lparr>callbackQueue := [VoidCallbackWrapper 0]\<rparr>"
  have a: "\<not> isCancelled (heap ?w 3)" by simp
  have b: "\<not> isCancelled (heap (call_func 3 [] ?w) 3)" by (simp add: call_func_undisturbed)
  have c: "\<not> isCancelled (heap sample_world 3)" by simp
  have d: "\<not> isCancelled (heap (call_func 3 [] sample_world) 3)"
    by (simp add: call_func_undisturbed)
  have on: "executeInLoop (TaskConfig_init esp32_NO_AFFINITY)"
    "executeCallbacksInLoop (globalConfig ?q)"
    by (simp_all add: TaskConfig_init_def AsyncConfig_init_def)
  have off: "\<not> executeInLoop ((TaskConfig_init esp32_NO_AFFINITY)\<lparr>executeInLoop := False\<rparr>)"
    "\<not> executeCallbacksInLoop (globalConfig sample_world)"
    by (simp_all add: sample_config_def)
  note queued = delivery_path [of ?w _ _ 3 "[]" "TaskConfig_init esp32_NO_AFFINITY" "()" 0 20]
  note inline = delivery_path [of sample_world False "[]" 3 "[]"
      "(TaskConfig_init esp32_NO_AFFINITY)\<lparr>executeInLoop := False\<rparr>" "()" 0 20]
  note drained = delivery_path [of ?q _ "[[VoidCallbackWrapper 1]]"]
  from queued a b on have 1: "callbackQueue (executeTask_void (Returned ()) 0 3
      (TaskConfig_init esp32_NO_AFFINITY) [] 20 ?w) = callbackQueue ?w @ [VoidCallbackWrapper 0]"
    and 2: "trace (executeTask_void (Returned ()) 0 3
      (TaskConfig_init esp32_NO_AFFINITY) [] 20 ?w) = trace ?w @ [FuncCalled 3]"
    by blast+
  from inline c d off have 3: "trace (executeTask_void (Returned ()) 0 3
      ((TaskConfig_init esp32_NO_AFFINITY)\<lparr>executeInLoop := False\<rparr>) [] 20 sample_world)
      = trace sample_world @ [FuncCalled 3, VoidCallbackCalled 0]"
    and 4: "callbackQueue (executeTask_void (Returned ()) 0 3
      ((TaskConfig_init esp32_NO_AFFINITY)\<lparr>executeInLoop := False\<rparr>) [] 20 sample_world)
      = callbackQueue sample_world"
    and 5: "Async_update False [] sample_world = sample_world"
    by blast+
  from drained on have 6: "\<exists>n. callbackQueue (Async_update False [[VoidCallbackWrapper 1]] ?q) = []
      \<and> trace (Async_update False [[VoidCallbackWrapper 1]] ?q)
          = trace ?q @ map call_thunk (callbackQueue ?q @ concat (take n [[VoidCallbackWrapper 1]]))"
    by blast
  from 6 have 7: "\<exists>n. trace (Async_update False [[VoidCallbackWrapper 1]] ?q)
          = map call_thunk ([VoidCallbackWrapper 0] @ concat (take n [[VoidCallbackWrapper 1]]))"
    by simp
  from 1 2 3 4 5 7 show ?thesis by simp
qed

subsection \<open>The lifecycle\<close>

lemma contexts_deliver [simp]: "contexts (deliver cfg c w) = contexts w"
  by (simp add: deliver_def)

lemma contexts_call_func_undisturbed [simp]: "contexts (call_func h [] w) = contexts w"
  and heap_call_func_undisturbed [simp]: "heap (call_func h [] w) = heap w"
  by (simp_all add: call_func_undisturbed)

lemma call_taskFunc_undisturbed:
  "contexts (call_taskFunc (TaskFunc func cb a cfg) [] now w) = contexts w
   \<and> (state (heap (call_taskFunc (TaskFunc func cb a cfg) [] now w) a) = state (heap w a)
      \<or> state (heap (call_taskFunc (TaskFunc func cb a cfg) [] now w) a) = Completed
      \<or> state (heap (call_taskFunc (TaskFunc func cb a cfg) [] now w) a) = Failed)"
proof (cases func)
  case (VoidFunc r)
  then show ?thesis
    by (cases r) (simp_all add: executeTask_void_def setState_def)
next
  case (ResultFunc r)
  then show ?thesis
    by (cases r) (simp_all add: executeTask_def setState_def)
qed

lemma call_taskFunc_other:
  "closure_handle f \<noteq> a \<Longrightarrow>
   contexts (call_taskFunc f [] now w) = contexts w \<and> heap (call_taskFunc f [] now w) a = heap w a"
proof (cases f)
  case (TaskFunc func cb b cfg)
  assume "closure_handle f \<noteq> a"
  with TaskFunc have ne: "a \<noteq> b" by simp
  show ?thesis
  proof (cases func)
    case (VoidFunc r)
    with TaskFunc ne show ?thesis
      by (cases r) (simp_all add: executeTask_void_def)
  next
    case (ResultFunc r)
    with TaskFunc ne show ?thesis
      by (cases r) (simp_all add: executeTask_def)
  qed
qed

lemma named_fields [simp]: "handle (named t w) = handle t" "taskFunc (named t w) = taskFunc t"
  by (simp_all add: named_def)

lemma lifecycle_step:
  assumes inv: "lifecycle_inv a F tw" and g: "guarded x tw"
  shows "\<exists>tw1. apply_op tsk x tw = Some tw1 \<and> lifecycle_inv a F tw1
           \<and> forward (Task_getState (fst tw) (snd tw)) (Task_getState (fst tw1) (snd tw1))"
proof -
  obtain t w where tw: "tw = (t, w)" by (cases tw)
  from inv tw have h: "handle t = Some a" and f: "taskFunc t = Some F"
    and F: "closure_handle F = a"
    and alive: "\<And>k f. contexts w k = Some f \<Longrightarrow> closure_handle f = a \<Longrightarrow>
          f = F \<and> state (heap w a) = Running \<and> taskHandle (heap w a) = Some k"
    by (auto simp: lifecycle_inv_def)
  have st: "Task_getState t w1 = state (heap w1 a)" for w1 :: "('a, 'b) world"
    by (simp add: Task_getState_def getState_def h)
  show ?thesis
  proof (cases x)
    case (OpRun answer now)
    with g tw have p: "state (heap w a) = Pending" by (simp add: st)
    with alive have dead: "contexts w k = Some f1 \<Longrightarrow> closure_handle f1 \<noteq> a" for k f1
      by auto
    show ?thesis
    proof (cases answer)
      case None
      have "run tsk (\<lambda>c. answer) now t w
          = Some (False, named t w, on_handle a (setState now Failed) (counted t w))"
        using f h by (rule run_launch_failed) (simp add: None)
      with OpRun tw h f F p dead show ?thesis
        by (auto simp add: lifecycle_inv_def Task_getState_def getState_def forward_def
            setState_def)
    next
      case (Some k)
      have "run tsk (\<lambda>c. answer) now t w
          = Some (True, named t w, on_handle a (setHandle now (Some k)) (created k F (counted t w)))"
        using f h by (rule run_launched) (simp add: Some)
      with OpRun tw h f F p dead show ?thesis
        by (auto simp add: lifecycle_inv_def Task_getState_def getState_def forward_def
            setHandle_def created_def split: if_splits)
    qed
  next
    case (OpCancel now)
    show ?thesis
    proof (cases "state (heap w a) = Running \<and> taskHandle (heap w a) \<noteq> None")
      case True
      then obtain k where k: "taskHandle (heap w a) = Some k" and r: "state (heap w a) = Running"
        by auto
      from alive k have only: "contexts w j = Some f1 \<Longrightarrow> j \<noteq> k \<Longrightarrow> closure_handle f1 \<noteq> a"
        for j f1
        by auto
      from OpCancel tw h f F k r only show ?thesis
        by (auto simp add: lifecycle_inv_def st forward_def
            Task_cancel_def apply_handle_op_def cancel_running on_handle_def split: if_splits)
    next
      case False
      then have c: "cancel now (heap w a) = ((heap w a)\<lparr>cancelled := True\<rparr>, None)"
        by (auto simp add: cancel_def)
      from OpCancel tw h f F alive show ?thesis
        by (auto simp add: lifecycle_inv_def st forward_def
            Task_cancel_def apply_handle_op_def c on_handle_def)
    qed
  next
    case (OpSetHandle now hh)
    with g show ?thesis by simp
  next
    case (OpSetState now s)
    with g show ?thesis by simp
  next
    case (OpWrapper k during now)
    with g have d: "during = []" by simp
    show ?thesis
    proof (cases "contexts w k")
      case None
      with OpWrapper tw inv show ?thesis
        by (simp add: wrapper_def forward_def)
    next
      case (Some f1)
      have w1: "wrapper k during now w
          = (call_taskFunc f1 [] now w)\<lparr>contexts :=
              vTaskDelete (Some k) (contexts (call_taskFunc f1 [] now w))\<rparr>"
        by (simp add: wrapper_def Some d Let_def)
      show ?thesis
      proof (cases "closure_handle f1 = a")
        case True
        with alive Some have f1: "f1 = F" and r: "state (heap w a) = Running"
          and k: "taskHandle (heap w a) = Some k"
          by auto
        from alive k have only: "contexts w j = Some f2 \<Longrightarrow> j \<noteq> k \<Longrightarrow> closure_handle f2 \<noteq> a"
          for j f2
          by auto
        obtain func cb cfg where Fc: "F = TaskFunc func cb a cfg"
          using F by (cases F) simp
        from call_taskFunc_undisturbed [of func cb a cfg now w]
        have c: "contexts (call_taskFunc F [] now w) = contexts w"
          and s: "state (heap (call_taskFunc F [] now w) a) = state (heap w a)
              \<or> state (heap (call_taskFunc F [] now w) a) = Completed
              \<or> state (heap (call_taskFunc F [] now w) a) = Failed"
          unfolding Fc by blast+
        have none: "contexts (wrapper k during now w) j = Some f2 \<Longrightarrow> closure_handle f2 \<noteq> a"
          for j f2
          using only [of j f2] by (simp add: w1 f1 c split: if_splits)
        have fw: "forward (state (heap w a)) (state (heap (wrapper k during now w) a))"
          using s r by (auto simp add: w1 f1 forward_def)
        from OpWrapper tw h f F none fw show ?thesis
          by (auto simp add: lifecycle_inv_def st)
      next
        case False
        from call_taskFunc_other [OF False, of now w]
        have c: "contexts (call_taskFunc f1 [] now w) = contexts w"
          and hp: "heap (call_taskFunc f1 [] now w) a = heap w a"
          by blast+
        have keep: "contexts (wrapper k during now w) j = Some f2 \<Longrightarrow> contexts w j = Some f2"
          for j f2
          by (simp add: w1 c split: if_splits)
        have same: "heap (wrapper k during now w) a = heap w a"
          by (simp add: w1 hp)
        from OpWrapper tw h f F alive keep same show ?thesis
          by (auto simp add: lifecycle_inv_def st forward_def)
      qed
    qed
  qed
qed

lemma lifecycle_run:
  "lifecycle_inv a F tw \<Longrightarrow> guarded_run tsk ops tw \<Longrightarrow>
   successively forward (Task_getState (fst tw) (snd tw) # states_after tsk ops tw)
   \<and> length (states_after tsk ops tw) = length ops"
proof (induction ops arbitrary: tw)
  case Nil
  then show ?case by simp
next
  case (Cons x xs)
  from Cons.prems have g: "guarded x tw" by simp
  from lifecycle_step [OF Cons.prems(1) g, of tsk]
  obtain tw1 where 1: "apply_op tsk x tw = Some tw1" and 2: "lifecycle_inv a F tw1"
    and 3: "forward (Task_getState (fst tw) (snd tw)) (Task_getState (fst tw1) (snd tw1))"
    by blast
  from Cons.prems 1 have "guarded_run tsk xs tw1" by simp
  from Cons.IH [OF 2 this] 1 3 show ?case by simp
qed

lemma lifecycle_inv_fresh:
  "(\<And>k f. contexts w0 k = Some f \<Longrightarrow> closure_handle f \<noteq> a) \<Longrightarrow>
   lifecycle_inv a (TaskFunc func cb a cfg) (Task_bind func cb cfg a w0)"
  by (auto simp add: lifecycle_inv_def Task_bind_def)

lemma state_bind: "Task_getState (fst (Task_bind func cb cfg a w0)) (snd (Task_bind func cb cfg a w0)) = Pending"
  by (simp add: Task_bind_def Task_getState_def getState_def TaskHandle_init_def)

lemma forward_never_back: "forward s s1 \<Longrightarrow> never_back s s1"
  by (auto simp add: forward_def never_back_def)

lemma transp_never_back: "transp never_back"
  by (auto simp add: transp_def never_back_def)

text \<open>
  C3, as the claim states it, fails: the setters are unguarded and \<^verbatim>\<open>run()\<close> does not look
  at the state. A task that ran and completed is \<open>Running\<close> again after a second \<^verbatim>\<open>run()\<close>;
  \<^verbatim>\<open>setState(Pending)\<close> after \<^verbatim>\<open>setState(Completed)\<close> gives \<open>Pending\<close>; and \<^verbatim>\<open>setHandle\<close> after the
  wrapper body completed gives \<open>Running\<close>.
\<close>

theorem lifecycle_regresses_counterexample:
  "states_after esp32_NO_AFFINITY [OpRun (Some 1) 10, OpWrapper 1 [] 20, OpRun (Some 2) 30]
      (Task_bind (ResultFunc (Returned 42)) 0 (TaskConfig_init esp32_NO_AFFINITY) 3 sample_world)
     = [Running, Completed, Running]
   \<and> states_after esp32_NO_AFFINITY [OpSetState 10 Completed, OpSetState 20 Pending]
      (Task_bind (ResultFunc (Returned 42)) 0 (TaskConfig_init esp32_NO_AFFINITY) 3 sample_world)
     = [Completed, Pending]
   \<and> states_after esp32_NO_AFFINITY [OpRun (Some 1) 10, OpWrapper 1 [] 20, OpSetHandle 30 (Some 1)]
      (Task_bind (ResultFunc (Returned 42)) 0 (TaskConfig_init esp32_NO_AFFINITY) 3 sample_world)
     = [Running, Completed, Running]"
  by code_simp

text \<open>
  C3, amended: for a task bound with a new \<^verbatim>\<open>TaskHandle\<close> (one that no live execution context
  refers to), under any sequence of \<^verbatim>\<open>run()\<close>, \<^verbatim>\<open>cancel()\<close> and wrapper bodies, of its own
  contexts or of other tasks', in which \<^verbatim>\<open>run()\<close> is called only while the task
  is \<open>Pending\<close> and each operation runs undisturbed from its start to its end, every
  operation is defined and each step either keeps the state or moves it forward: from
  \<open>Pending\<close> to \<open>Running\<close> (or to \<open>Failed\<close>, when the Launcher fails), from \<open>Running\<close> to
  \<open>Completed\<close>, \<open>Failed\<close> or \<open>Cancelled\<close>. So every state is followed only by itself or by
  states of a later stage: \<open>Pending\<close> and \<open>Running\<close> are not revisited after they were left,
  and \<open>Completed\<close>, \<open>Failed\<close> and \<open>Cancelled\<close> are terminal. \<^verbatim>\<open>setHandle()\<close>, \<^verbatim>\<open>setState()\<close> and a
  \<^verbatim>\<open>run()\<close> on a task that is not \<open>Pending\<close> are outside this guarantee.
\<close>

theorem lifecycle_forward:
  assumes "\<forall>k f. contexts w0 k = Some f \<longrightarrow> closure_handle f \<noteq> a"
    and "guarded_run tsk ops (Task_bind func cb cfg a w0)"
  shows "successively forward (Pending # states_after tsk ops (Task_bind func cb cfg a w0))
       \<and> sorted_wrt never_back (Pending # states_after tsk ops (Task_bind func cb cfg a w0))
       \<and> length (states_after tsk ops (Task_bind func cb cfg a w0)) = length ops"
proof -
  from assms(1) have "lifecycle_inv a (TaskFunc func cb a cfg) (Task_bind func cb cfg a w0)"
    by (intro lifecycle_inv_fresh) blast
  from lifecycle_run [OF this assms(2)]
  have 1: "successively forward (Pending # states_after tsk ops (Task_bind func cb cfg a w0))"
    and 2: "length (states_after tsk ops (Task_bind func cb cfg a w0)) = length ops"
    by (simp_all add: state_bind)
  from 1 have "successively never_back (Pending # states_after tsk ops (Task_bind func cb cfg a w0))"
    by (rule successively_mono) (rule forward_never_back)
  then have "sorted_wrt never_back (Pending # states_after tsk ops (Task_bind func cb cfg a w0))"
    by (simp only: successively_conv_sorted_wrt [OF transp_never_back])
  with 1 2 show ?thesis by blast
qed

text \<open>
  The theorem in a world where another task, with its \<^verbatim>\<open>TaskHandle\<close> at the address 7, runs as
  the context 2: the task at the address 3 is cancelled while \<open>Pending\<close>, then run as the
  context 1; the other task's wrapper runs; the wrapper of the context 1 finds the flag set;
  the task is cancelled again.
\<close>

theorem lifecycle_forward_witness:
  "states_after esp32_NO_AFFINITY
      [OpCancel 5, OpRun (Some 1) 10, OpWrapper 2 [] 15, OpWrapper 1 [] 20, OpCancel 30]
      (Task_bind (ResultFunc (Returned 42)) 0 (TaskConfig_init esp32_NO_AFFINITY) 3
        (created 2 (TaskFunc (VoidFunc (Returned ())) 9 7 (TaskConfig_init esp32_NO_AFFINITY))
          sample_world))
     = [Pending, Running, Running, Running, Cancelled]
   \<and> successively forward (Pending # states_after esp32_NO_AFFINITY
        [OpCancel 5, OpRun (Some 1) 10, OpWrapper 2 [] 15, OpWrapper 1 [] 20, OpCancel 30]
        (Task_bind (ResultFunc (Returned 42)) 0 (TaskConfig_init esp32_NO_AFFINITY) 3
          (created 2 (TaskFunc (VoidFunc (Returned ())) 9 7 (TaskConfig_init esp32_NO_AFFINITY))
            sample_world)))
   \<and> sorted_wrt never_back (Pending # states_after esp32_NO_AFFINITY
        [OpCancel 5, OpRun (Some 1) 10, OpWrapper 2 [] 15, OpWrapper 1 [] 20, OpCancel 30]
        (Task_bind (ResultFunc (Returned 42)) 0 (TaskConfig_init esp32_NO_AFFINITY) 3
          (created 2 (TaskFunc (VoidFunc (Returned ())) 9 7 (TaskConfig_init esp32_NO_AFFINITY))
            sample_world)))"
proof -
  let ?w0 = "created 2 (TaskFunc (VoidFunc (Returned ())) 9 7 (TaskConfig_init esp32_NO_AFFINITY))
      sample_world"
  let ?ops = "[OpCancel 5, OpRun (Some 1) 10, OpWrapper 2 [] 15, OpWrapper 1 [] 20, OpCancel 30]"
  have c: "\<forall>k f. contexts ?w0 k = Some f \<longrightarrow> closure_handle f \<noteq> 3"
    by (simp add: created_def)
  have g: "guarded_run esp32_NO_AFFINITY ?ops
      (Task_bind (ResultFunc (Returned 42)) (0::nat) (TaskConfig_init esp32_NO_AFFINITY) 3 ?w0)"
    by code_simp
  have s: "states_after esp32_NO_AFFINITY ?ops
      (Task_bind (ResultFunc (Returned 42)) (0::nat) (TaskConfig_init esp32_NO_AFFINITY) 3 ?w0)
     = [Pending, Running, Running, Running, Cancelled]"
    by code_simp
  from lifecycle_forward [OF c g] s show ?thesis by blast
qed

end
